theory Spec2Isabelle
  imports Main
begin

section \<open>Exceptions\<close>

text \<open>
  Every exception class that \<^verbatim>\<open>generation_strategy.py\<close> raises, or that the
  Python runtime raises on its behalf (a missing dictionary key, a list index out of
  range, a failed \<^verbatim>\<open>assert\<close>, an assignment to a property without a setter).
  A raise of the source is the \<open>Inl\<close> branch of a result.
\<close>

datatype error =
    DataRequiredError
  | UnsupportedError
  | UserInputError
  | GenerationStrategyCompleted
  | GenerationStrategyMisconfiguredException
  | ValueError
  | KeyError
  | IndexError
  | AssertionError
  | AttributeError
  | OtherError string

section \<open>Data model\<close>

text \<open>
  The collaborators of the strategy (\<^verbatim>\<open>Experiment\<close>, \<^verbatim>\<open>GeneratorRun\<close>,
  \<^verbatim>\<open>Adapter\<close>, \<^verbatim>\<open>Data\<close>, \<^verbatim>\<open>ObservationFeatures\<close>) are imported classes;
  the strategy only reads the experiment's name and metrics and the arms of a generator
  run, so these are the fields kept.
\<close>

type_synonym observation_features = string

text \<open>\<^verbatim>\<open>dict[str, list[ObservationFeatures]]\<close>: metric name to pending observations.\<close>

type_synonym pending_observations = "(string \<times> observation_features list) list"

datatype adapter = Adapter string

datatype data = Data string

record ax_experiment =
  exp_name :: string
  exp_metrics :: "string list"

record generator_run =
  gr_arms :: "observation_features list"
  gr_model_key :: string

record transition_criterion =
  criterion_class :: string
  transition_to :: "string option"
  continue_trial_generation :: bool

text \<open>
  A \<^verbatim>\<open>GenerationNode\<close>; \<open>is_generation_step\<close> is
  \<^verbatim>\<open>isinstance(n, GenerationStep)\<close>, and the fields \<open>step_num_trials\<close>,
  \<open>step_max_parallelism\<close>, \<open>step_completion_criteria\<close> and \<open>step_index\<close> are
  \<^verbatim>\<open>num_trials\<close>, \<^verbatim>\<open>max_parallelism\<close>, \<^verbatim>\<open>completion_criteria\<close> and
  \<^verbatim>\<open>index\<close> of a \<^verbatim>\<open>GenerationStep\<close>. \<open>model_key\<close> is
  \<^verbatim>\<open>model_spec_to_gen_from.model_key\<close> and \<open>uses_factory_function\<close> says
  whether one of the node's model specs is a \<^verbatim>\<open>FactoryFunctionGeneratorSpec\<close>.
\<close>

record generation_node =
  node_name :: string
  is_generation_step :: bool
  transition_criteria :: "transition_criterion list"
  previous_node_name :: "string option"
  should_skip :: bool
  fitted_model :: "adapter option"
  model_key :: string
  uses_factory_function :: bool
  step_num_trials :: int
  step_max_parallelism :: "int option"
  step_completion_criteria :: "transition_criterion list"
  step_index :: "nat option"

text \<open>
  The fields of a \<^verbatim>\<open>GenerationStrategy\<close> object: field \<^verbatim>\<open>_x\<close> of the class is
  \<open>gs_x\<close>. \<^verbatim>\<open>_curr\<close> is a reference to one of the objects in \<^verbatim>\<open>_nodes\<close>, so
  it is the position of that object in the list: a write through \<^verbatim>\<open>self._curr\<close>
  is a write to that element of \<open>gs_nodes\<close>.
\<close>

record generation_strategy =
  gs_nodes :: "generation_node list"
  gs_curr :: nat
  gs_uses_registered_models :: bool
  gs_generator_runs :: "generator_run list"
  gs_name :: string
  gs_experiment :: "ax_experiment option"
  gs_model :: "adapter option"

text \<open>
  Pending-observation dictionaries are mutable objects shared between caller and
  strategy, so they live in a store: a reference is a position in the list.
\<close>

type_synonym ref = nat

type_synonym heap = "pending_observations list"

definition alloc :: "heap \<Rightarrow> pending_observations \<Rightarrow> ref \<times> heap" where
  "alloc h v = (length h, h @ [v])"

section \<open>The methods of GenerationNode the strategy calls\<close>

text \<open>
  The keyword arguments of \<^verbatim>\<open>GenerationNode.gen\<close> as
  \<^verbatim>\<open>_gen_with_multiple_nodes\<close> passes them.
\<close>

record gen_kwargs =
  kw_experiment :: ax_experiment
  kw_data :: "data option"
  kw_pending_observations :: pending_observations
  kw_skip_fit :: bool
  kw_grs_this_gen :: "generator_run list"
  kw_n :: "int option"
  kw_fixed_features :: "observation_features option"
  kw_arms_per_node :: "(string \<times> int) list option"

text \<open>
  \<^verbatim>\<open>generation_node.py\<close> and \<^verbatim>\<open>ax.core.utils\<close> are imported by the module and
  are not part of it, so the node methods the strategy calls are parameters of the
  model. Each takes the strategy (the node's back-pointer \<^verbatim>\<open>_generation_strategy\<close>,
  through which it also reaches the experiment) and the receiving node.
  \<^item> \<open>should_transition_to_next_node gs node raise_data_required_error\<close> returns the
    pair of the source or raises;
  \<^item> \<open>is_completed gs node\<close> is the property \<^verbatim>\<open>node.is_completed\<close>;
  \<^item> \<open>node_gen gs node kwargs\<close> is \<^verbatim>\<open>node.gen(**kwargs)\<close>: it returns a generator
    run, \<^verbatim>\<open>None\<close> or raises, and in each case the receiving node as it left it
    (cached fitted model, skip flag);
  \<^item> \<open>new_trial_limit gs node raise_generation_errors\<close>;
  \<^item> \<open>extract_pending_observations experiment\<close> of \<^verbatim>\<open>ax.core.utils\<close>.
\<close>

record node_env =
  should_transition_to_next_node ::
    "generation_strategy \<Rightarrow> generation_node \<Rightarrow> bool \<Rightarrow> error + (bool \<times> string option)"
  is_completed :: "generation_strategy \<Rightarrow> generation_node \<Rightarrow> bool"
  node_gen ::
    "generation_strategy \<Rightarrow> generation_node \<Rightarrow> gen_kwargs
      \<Rightarrow> (error + generator_run option) \<times> generation_node"
  new_trial_limit :: "generation_strategy \<Rightarrow> generation_node \<Rightarrow> bool \<Rightarrow> int"
  extract_pending_observations :: "ax_experiment \<Rightarrow> pending_observations option"

text \<open>\<^verbatim>\<open>self._curr\<close>, read.\<close>

definition curr_node :: "generation_strategy \<Rightarrow> generation_node" where
  "curr_node s = gs_nodes s ! gs_curr s"

text \<open>
  Modelled from the spec: \<^verbatim>\<open>GenerationNode.transition_edges\<close> is not in the module.
  The spec calls the transition criteria of one node with one target a transition
  "edge"; the property maps each target (\<^verbatim>\<open>None\<close> included) to the node's criteria
  with that target, targets in order of first appearance. It is a dictionary with the
  empty list as default: a target that no criterion of the node names is looked up as an
  edge without criteria (\<open>edge_criteria\<close>).
\<close>

definition transition_edges ::
  "generation_node \<Rightarrow> (string option \<times> transition_criterion list) list" where
  "transition_edges nd =
     map (\<lambda>k. (k, filter (\<lambda>tc. transition_to tc = k) (transition_criteria nd)))
         (rev (remdups (rev (map transition_to (transition_criteria nd)))))"

definition edge_criteria :: "generation_node \<Rightarrow> string option \<Rightarrow> transition_criterion list" where
  "edge_criteria nd next_node =
     (case map_of (transition_edges nd) next_node of None \<Rightarrow> [] | Some tcs \<Rightarrow> tcs)"

text \<open>
  Modelled from the spec: \<^verbatim>\<open>extend_pending_observations\<close> of \<^verbatim>\<open>ax.core.utils\<close>
  is not in the module. The spec has the loop "extend the pending-observations map with
  its arms", a map "mutated in place", and the call site discards the return value. For
  every metric of the experiment the arms of the generator run are appended to that
  metric's list, which is created when missing; nothing is removed and an arm already in
  the list is appended again.
\<close>

fun extend_metric :: "pending_observations \<Rightarrow> string \<Rightarrow> observation_features list
    \<Rightarrow> pending_observations" where
  "extend_metric [] m arms = [(m, arms)]"
| "extend_metric ((k, obs) # rest) m arms =
     (if k = m then (k, obs @ arms) # rest
      else (k, obs) # extend_metric rest m arms)"

definition extend_pending_observations ::
  "ax_experiment \<Rightarrow> pending_observations \<Rightarrow> generator_run \<Rightarrow> pending_observations" where
  "extend_pending_observations experiment pending generator_run =
     foldl (\<lambda>p m. extend_metric p m (gr_arms generator_run)) pending (exp_metrics experiment)"

section \<open>Properties of the strategy\<close>

text \<open>
  \<^verbatim>\<open>is_node_based\<close>: no node is a \<^verbatim>\<open>GenerationStep\<close> (the second conjunct of
  the source, that every element is a \<^verbatim>\<open>GenerationNode\<close>, holds by typing).
\<close>

definition is_node_based :: "generation_node list \<Rightarrow> bool" where
  "is_node_based ns = (\<not> list_ex is_generation_step ns)"

text \<open>
  \<^verbatim>\<open>nodes_dict[name]\<close>: the dictionary comprehension keeps the last node of a name;
  the result is the position of that node, \<open>None\<close> when the key is missing.
\<close>

fun nodes_dict_from :: "generation_node list \<Rightarrow> nat \<Rightarrow> string \<Rightarrow> nat option \<Rightarrow> nat option" where
  "nodes_dict_from [] i k found = found"
| "nodes_dict_from (nd # rest) i k found =
     nodes_dict_from rest (Suc i) k (if node_name nd = k then Some i else found)"

definition nodes_dict :: "generation_strategy \<Rightarrow> string \<Rightarrow> nat option" where
  "nodes_dict s k = nodes_dict_from (gs_nodes s) 0 k None"

text \<open>\<^verbatim>\<open>optimization_complete\<close>.\<close>

definition optimization_complete :: "node_env \<Rightarrow> generation_strategy \<Rightarrow> bool" where
  "optimization_complete env s = list_all (is_completed env s) (gs_nodes s)"

text \<open>
  The \<^verbatim>\<open>experiment\<close> setter. The getter it calls raises \<^verbatim>\<open>ValueError\<close> on an
  unset experiment, which the first disjunct excludes.
\<close>

definition set_experiment ::
  "ax_experiment \<Rightarrow> generation_strategy \<Rightarrow> (error + unit) \<times> generation_strategy" where
  "set_experiment e s =
     (case gs_experiment s of
        None \<Rightarrow> (Inr (), s\<lparr>gs_experiment := Some e\<rparr>)
      | Some old \<Rightarrow>
          if exp_name e = exp_name old then (Inr (), s\<lparr>gs_experiment := Some e\<rparr>)
          else (Inl ValueError, s))"

section \<open>Model selection\<close>

text \<open>\<^verbatim>\<open>self._nodes.index(self._curr)\<close>: the first position holding an equal node.\<close>

fun list_index :: "'a list \<Rightarrow> 'a \<Rightarrow> nat \<Rightarrow> nat option" where
  "list_index [] x i = None"
| "list_index (y # ys) x i = (if y = x then Some i else list_index ys x (Suc i))"

text \<open>
  The loop \<^verbatim>\<open>for node in self._nodes: if node.node_name == next_node: ...\<close> that moves
  \<^verbatim>\<open>_curr\<close> and unsets \<^verbatim>\<open>_model\<close>.
\<close>

fun move_to_node :: "generation_node list \<Rightarrow> nat \<Rightarrow> string \<Rightarrow> generation_strategy
    \<Rightarrow> generation_strategy" where
  "move_to_node [] i next_node s = s"
| "move_to_node (nd # rest) i next_node s =
     move_to_node rest (Suc i) next_node
       (if node_name nd = next_node then s\<lparr>gs_curr := i, gs_model := None\<rparr> else s)"

text \<open>\<^verbatim>\<open>_maybe_transition_to_next_node\<close>.\<close>

definition maybe_transition_to_next_node ::
  "node_env \<Rightarrow> bool \<Rightarrow> generation_strategy \<Rightarrow> (error + bool) \<times> generation_strategy" where
  "maybe_transition_to_next_node env raise_data_required_error s =
     (case should_transition_to_next_node env s (curr_node s) raise_data_required_error of
        Inl e \<Rightarrow> (Inl e, s)
      | Inr (move_to_next_node, next_node) \<Rightarrow>
          if move_to_next_node then
            if optimization_complete env s then (Inl GenerationStrategyCompleted, s)
            else
              (case next_node of
                 Some nn \<Rightarrow> (Inr True, move_to_node (gs_nodes s) 0 nn s)
               | None \<Rightarrow>
                   (case list_index (gs_nodes s) (curr_node s) 0 of
                      None \<Rightarrow> (Inl ValueError, s)
                    | Some current_node_index \<Rightarrow>
                        if current_node_index + 1 < length (gs_nodes s) then
                          (Inr True,
                           move_to_node (gs_nodes s) 0
                             (node_name (gs_nodes s ! (current_node_index + 1))) s)
                        else (Inl IndexError, s)))
          else (Inr False, s))"

text \<open>\<^verbatim>\<open>_should_continue_gen_for_trial\<close>.\<close>

definition should_continue_gen_for_trial ::
  "node_env \<Rightarrow> generation_strategy \<Rightarrow> error + bool" where
  "should_continue_gen_for_trial env s =
     (case should_transition_to_next_node env s (curr_node s) False of
        Inl e \<Rightarrow> Inl e
      | Inr (should_transition, next_node) \<Rightarrow>
          if \<not> should_transition then Inr False
          else
            (case next_node of
               None \<Rightarrow> Inl AssertionError
             | Some nn \<Rightarrow>
                 Inr (list_all continue_trial_generation
                        (edge_criteria (curr_node s) (Some nn)))))"

section \<open>Candidate generation\<close>

text \<open>
  The arguments of \<^verbatim>\<open>_gen_with_multiple_nodes\<close> that stay the same through one
  call; the pending-observations argument is passed apart, as a reference.
\<close>

record gen_call =
  c_experiment :: ax_experiment
  c_data :: "data option"
  c_n :: "int option"
  c_fixed_features :: "observation_features option"
  c_arms_per_node :: "(string \<times> int) list option"
  c_first_generation_in_multi :: bool

text \<open>\<^verbatim>\<open>_validate_arms_per_node\<close>.\<close>

definition validate_arms_per_node ::
  "generation_strategy \<Rightarrow> (string \<times> int) list option \<Rightarrow> error + unit" where
  "validate_arms_per_node s arms_per_node =
     (case arms_per_node of
        None \<Rightarrow> Inr ()
      | Some apn \<Rightarrow>
          if \<not> list_all (\<lambda>nd. node_name nd \<in> set (map fst apn)) (gs_nodes s)
          then Inl UserInputError else Inr ())"

text \<open>
  The \<^verbatim>\<open>while continue_gen_for_trial\<close> loop of \<^verbatim>\<open>_gen_with_multiple_nodes\<close>.
  Nothing in the loop bounds the number of rounds (a node that keeps returning
  \<^verbatim>\<open>None\<close> keeps it running), so the model takes fuel, one unit a round, and
  \<open>None\<close> is the loop still running when the fuel is spent. \<open>p\<close> is the
  pending-observations dictionary, \<open>grs_this_gen\<close> the list of runs so far. A result
  carries the strategy and the store as the call leaves them, also when it raises.
\<close>

fun gen_loop ::
  "nat \<Rightarrow> node_env \<Rightarrow> gen_call \<Rightarrow> ref \<Rightarrow> generator_run list \<Rightarrow> generation_strategy \<Rightarrow> heap
    \<Rightarrow> ((error + generator_run list) \<times> generation_strategy \<times> heap) option" where
  "gen_loop 0 env c p grs_this_gen s h = None"
| "gen_loop (Suc fuel) env c p grs_this_gen s h =
     (case should_transition_to_next_node env s (curr_node s) False of
        Inl e \<Rightarrow> Some (Inl e, s, h)
      | Inr (should_transition, node_to_gen_from_name) \<Rightarrow>
          (case (case node_to_gen_from_name of None \<Rightarrow> None | Some k \<Rightarrow> nodes_dict s k) of
             None \<Rightarrow> Some (Inl KeyError, s, h)
           | Some i \<Rightarrow>
               (let s1 =
                  (if should_transition then
                     s\<lparr>gs_nodes := (gs_nodes s)
                         [i := (gs_nodes s ! i)
                                 \<lparr>previous_node_name := node_to_gen_from_name,
                                  should_skip := False\<rparr>]\<rparr>
                   else s)
                in
                  (case maybe_transition_to_next_node env True s1 of
                     (Inl e, s2) \<Rightarrow> Some (Inl e, s2, h)
                   | (Inr transitioned, s2) \<Rightarrow>
                       (case node_gen env s2 (curr_node s2)
                               \<lparr>kw_experiment = c_experiment c,
                                kw_data = c_data c,
                                kw_pending_observations = h ! p,
                                kw_skip_fit =
                                  (\<not> (c_first_generation_in_multi c \<or> transitioned)),
                                kw_grs_this_gen = grs_this_gen,
                                kw_n = c_n c,
                                kw_fixed_features = c_fixed_features c,
                                kw_arms_per_node = c_arms_per_node c\<rparr> of
                          (Inl e, nd) \<Rightarrow>
                            (let s3 = s2\<lparr>gs_nodes := (gs_nodes s2)[gs_curr s2 := nd]\<rparr> in
                               if e = DataRequiredError then
                                 if length grs_this_gen = 0 then Some (Inl e, s3, h)
                                 else Some (Inr grs_this_gen, s3, h)
                               else Some (Inl e, s3, h))
                        | (Inr gr_opt, nd) \<Rightarrow>
                            (let s3 = s2\<lparr>gs_nodes := (gs_nodes s2)[gs_curr s2 := nd],
                                        gs_model := fitted_model nd\<rparr> in
                               (case gr_opt of
                                  None \<Rightarrow> gen_loop fuel env c p grs_this_gen s3 h
                                | Some gr \<Rightarrow>
                                    (let s4 = s3\<lparr>gs_generator_runs :=
                                                   gs_generator_runs s3 @ [gr]\<rparr>;
                                         grs' = grs_this_gen @ [gr];
                                         h' = h[p := extend_pending_observations
                                                       (c_experiment c) (h ! p) gr]
                                     in
                                       (case should_continue_gen_for_trial env s4 of
                                          Inl e \<Rightarrow> Some (Inl e, s4, h')
                                        | Inr continue_gen_for_trial \<Rightarrow>
                                            if continue_gen_for_trial
                                            then gen_loop fuel env c p grs' s4 h'
                                            else Some (Inr grs', s4, h'))))))))))"

text \<open>
  \<^verbatim>\<open>_gen_with_multiple_nodes\<close>. The caller's dictionary is used as it is; only a
  missing one is replaced by a new empty dictionary.
\<close>

definition gen_with_multiple_nodes ::
  "nat \<Rightarrow> node_env \<Rightarrow> gen_call \<Rightarrow> ref option \<Rightarrow> generation_strategy \<Rightarrow> heap
    \<Rightarrow> ((error + generator_run list) \<times> generation_strategy \<times> heap) option" where
  "gen_with_multiple_nodes fuel env c pending_observations s h =
     (let s0 = s\<lparr>gs_experiment := Some (c_experiment c)\<rparr> in
        if optimization_complete env s0 then Some (Inl GenerationStrategyCompleted, s0, h)
        else
          (case (case pending_observations of Some r \<Rightarrow> (r, h) | None \<Rightarrow> alloc h []) of
             (p, h1) \<Rightarrow>
               (case set_experiment (c_experiment c) s0 of
                  (Inl e, s1) \<Rightarrow> Some (Inl e, s1, h1)
                | (Inr u, s1) \<Rightarrow>
                    (case validate_arms_per_node s1 (c_arms_per_node c) of
                       Inl e \<Rightarrow> Some (Inl e, s1, h1)
                     | Inr u' \<Rightarrow> gen_loop fuel env c p [] s1 h1))))"

text \<open>\<^verbatim>\<open>GenerationStrategy.gen\<close>; \<^verbatim>\<open>gr[0]\<close> raises on an empty list.\<close>

definition gen ::
  "nat \<Rightarrow> node_env \<Rightarrow> ax_experiment \<Rightarrow> data option \<Rightarrow> ref option \<Rightarrow> int
    \<Rightarrow> observation_features option \<Rightarrow> generation_strategy \<Rightarrow> heap
    \<Rightarrow> ((error + generator_run) \<times> generation_strategy \<times> heap) option" where
  "gen fuel env experiment data pending_observations n fixed_features s h =
     (case set_experiment experiment s of
        (Inl e, s1) \<Rightarrow> Some (Inl e, s1, h)
      | (Inr u, s1) \<Rightarrow>
          (case gen_with_multiple_nodes fuel env
                  \<lparr>c_experiment = experiment, c_data = data, c_n = Some n,
                   c_fixed_features = fixed_features, c_arms_per_node = None,
                   c_first_generation_in_multi = True\<rparr>
                  pending_observations s1 h of
             None \<Rightarrow> None
           | Some (Inl e, s2, h2) \<Rightarrow> Some (Inl e, s2, h2)
           | Some (Inr gr, s2, h2) \<Rightarrow>
               if length gr > 1 then Some (Inl UnsupportedError, s2, h2)
               else (case gr of
                       [] \<Rightarrow> Some (Inl IndexError, s2, h2)
                     | g # rest \<Rightarrow> Some (Inr g, s2, h2))))"

text \<open>
  The \<^verbatim>\<open>for _i in range(num_trials)\<close> loop of
  \<^verbatim>\<open>gen_for_multiple_trials_with_multiple_models\<close>: the first argument is the
  number of rounds still to run, \<open>acc\<close> is \<^verbatim>\<open>grs_for_multiple_trials\<close>.
\<close>

fun multi_loop ::
  "nat \<Rightarrow> nat \<Rightarrow> node_env \<Rightarrow> gen_call \<Rightarrow> ref \<Rightarrow> generator_run list list
    \<Rightarrow> generation_strategy \<Rightarrow> heap
    \<Rightarrow> ((error + generator_run list list) \<times> generation_strategy \<times> heap) option" where
  "multi_loop 0 fuel env c p acc s h = Some (Inr acc, s, h)"
| "multi_loop (Suc k) fuel env c p acc s h =
     (case gen_with_multiple_nodes fuel env
             (c\<lparr>c_first_generation_in_multi := (length acc < 1)\<rparr>) (Some p) s h of
        None \<Rightarrow> None
      | Some (Inl e, s', h') \<Rightarrow> Some (Inl e, s', h')
      | Some (Inr grs, s', h') \<Rightarrow> multi_loop k fuel env c p (acc @ [grs]) s' h')"

text \<open>
  The number of rounds \<^verbatim>\<open>gen_for_multiple_trials_with_multiple_models\<close> asks for,
  from the requested \<^verbatim>\<open>num_trials\<close> and the current node's
  \<^verbatim>\<open>new_trial_limit\<close>.
\<close>

definition clamp_num_trials :: "int \<Rightarrow> int \<Rightarrow> int" where
  "clamp_num_trials num_trials new_trials_limit =
     (if new_trials_limit = - 1 then max num_trials 1
      else max (min num_trials new_trials_limit) 1)"

text \<open>
  \<^verbatim>\<open>gen_for_multiple_trials_with_multiple_models\<close>. The dictionary the loop works on
  is a new object: the result of \<^verbatim>\<open>extract_pending_observations\<close> (or \<^verbatim>\<open>{}\<close>)
  when the caller passed none, a deep copy of the caller's otherwise.
\<close>

definition gen_for_multiple_trials_with_multiple_models ::
  "nat \<Rightarrow> node_env \<Rightarrow> ax_experiment \<Rightarrow> data option \<Rightarrow> ref option \<Rightarrow> int option
    \<Rightarrow> observation_features option \<Rightarrow> int \<Rightarrow> (string \<times> int) list option
    \<Rightarrow> generation_strategy \<Rightarrow> heap
    \<Rightarrow> ((error + generator_run list list) \<times> generation_strategy \<times> heap) option" where
  "gen_for_multiple_trials_with_multiple_models fuel env experiment data pending_observations
       n fixed_features num_trials arms_per_node s h =
     (case set_experiment experiment s of
        (Inl e, s1) \<Rightarrow> Some (Inl e, s1, h)
      | (Inr u, s1) \<Rightarrow>
          (case alloc h
                  (case pending_observations of
                     None \<Rightarrow>
                       (case extract_pending_observations env experiment of
                          None \<Rightarrow> []
                        | Some po \<Rightarrow> po)
                   | Some r \<Rightarrow> h ! r) of
             (p, h1) \<Rightarrow>
               multi_loop
                 (nat (clamp_num_trials num_trials
                         (new_trial_limit env s1 (curr_node s1) False)))
                 fuel env
                 \<lparr>c_experiment = experiment, c_data = data, c_n = n,
                  c_fixed_features = fixed_features, c_arms_per_node = arms_per_node,
                  c_first_generation_in_multi = True\<rparr>
                 p [] s1 h1))"

section \<open>Construction\<close>

text \<open>\<^verbatim>\<open>sub in s\<close> on strings, and \<^verbatim>\<open>str(idx)\<close> on a list position.\<close>

fun str_contains :: "string \<Rightarrow> string \<Rightarrow> bool" where
  "str_contains sub [] = (sub = [])"
| "str_contains sub (c # cs) = (take (length sub) (c # cs) = sub \<or> str_contains sub cs)"

definition digit_char :: "nat \<Rightarrow> char" where
  "digit_char d = char_of (48 + d)"

fun str_nat :: "nat \<Rightarrow> string" where
  "str_nat n = (if n < 10 then [digit_char n] else str_nat (n div 10) @ [digit_char (n mod 10)])"

declare str_nat.simps [simp del]

text \<open>
  The loop of \<^verbatim>\<open>_validate_and_set_step_sequence\<close> over \<^verbatim>\<open>enumerate(steps)\<close>;
  \<open>n\<close> is \<^verbatim>\<open>len(self._steps)\<close>. It returns the steps as the loop leaves them:
  named, indexed, and with the target of every criterion that is not a
  \<^verbatim>\<open>MaxGenerationParallelism\<close> set to the next step's name.
\<close>

definition set_transition_to :: "nat \<Rightarrow> transition_criterion \<Rightarrow> transition_criterion" where
  "set_transition_to idx tc =
     (if criterion_class tc \<noteq> ''MaxGenerationParallelism''
      then tc\<lparr>transition_to := Some (''GenerationStep_'' @ str_nat (idx + 1))\<rparr>
      else tc)"

fun step_sequence_loop :: "nat \<Rightarrow> nat \<Rightarrow> generation_node list \<Rightarrow> error + generation_node list" where
  "step_sequence_loop n idx [] = Inr []"
| "step_sequence_loop n idx (step # rest) =
     (if (if step_num_trials step = - 1 \<and> length (step_completion_criteria step) < 1
          then int idx < int n - 1
          else step_num_trials step < 1 \<and> step_num_trials step \<noteq> - 1)
      then Inl UserInputError
      else if (case step_max_parallelism step of None \<Rightarrow> False | Some m \<Rightarrow> m < 1)
      then Inl UserInputError
      else
        (case step_sequence_loop n (Suc idx) rest of
           Inl e \<Rightarrow> Inl e
         | Inr rest' \<Rightarrow>
             Inr (step\<lparr>node_name := ''GenerationStep_'' @ str_nat idx,
                       step_index := Some idx,
                       transition_criteria :=
                         (if idx < n then map (set_transition_to idx) (transition_criteria step)
                          else transition_criteria step)\<rparr> # rest')))"

text \<open>
  \<^verbatim>\<open>_validate_and_set_step_sequence\<close>, under its decorator
  \<^verbatim>\<open>step_based_gs_only\<close>. The result is the list of steps and the position of
  \<^verbatim>\<open>_curr\<close>.
\<close>

definition validate_and_set_step_sequence ::
  "generation_node list \<Rightarrow> error + (generation_node list \<times> nat)" where
  "validate_and_set_step_sequence steps =
     (if is_node_based steps then Inl UnsupportedError
      else
        (case step_sequence_loop (length steps) 0 steps of
           Inl e \<Rightarrow> Inl e
         | Inr steps' \<Rightarrow> (case steps' of [] \<Rightarrow> Inl IndexError | x # xs \<Rightarrow> Inr (steps', 0))))"

text \<open>The first loop of \<^verbatim>\<open>_validate_and_set_node_graph\<close>: node names are unique.\<close>

fun unique_node_names :: "generation_node list \<Rightarrow> string list \<Rightarrow> error + string list" where
  "unique_node_names [] node_names = Inr node_names"
| "unique_node_names (nd # rest) node_names =
     (if node_name nd \<in> set node_names then Inl GenerationStrategyMisconfiguredException
      else unique_node_names rest (node_names @ [node_name nd]))"

text \<open>
  The body of the second loop, for one transition edge \<open>(next_node, tcs)\<close> of a node:
  the three checks in the order of the source.
\<close>

definition check_edge ::
  "string list \<Rightarrow> string option \<times> transition_criterion list \<Rightarrow> error + unit" where
  "check_edge node_names edge =
     (case edge of (next_node, tcs) \<Rightarrow>
        if next_node = None
           \<and> list_ex (\<lambda>tc. \<not> str_contains ''MaxGenerationParallelism'' (criterion_class tc)) tcs
        then Inl GenerationStrategyMisconfiguredException
        else if next_node \<noteq> None \<and> the next_node \<notin> set node_names
        then Inl GenerationStrategyMisconfiguredException
        else if next_node \<noteq> None
                \<and> length (remdups (map continue_trial_generation tcs)) > 1
        then Inl GenerationStrategyMisconfiguredException
        else Inr ())"

fun check_edges ::
  "string list \<Rightarrow> (string option \<times> transition_criterion list) list \<Rightarrow> error + unit" where
  "check_edges node_names [] = Inr ()"
| "check_edges node_names (edge # rest) =
     (case check_edge node_names edge of
        Inl e \<Rightarrow> Inl e
      | Inr u \<Rightarrow> check_edges node_names rest)"

fun check_node_graph :: "string list \<Rightarrow> generation_node list \<Rightarrow> error + unit" where
  "check_node_graph node_names [] = Inr ()"
| "check_node_graph node_names (nd # rest) =
     (case check_edges node_names (transition_edges nd) of
        Inl e \<Rightarrow> Inl e
      | Inr u \<Rightarrow> check_node_graph node_names rest)"

text \<open>
  \<^verbatim>\<open>_validate_and_set_node_graph\<close>; the warning it logs has no effect on the
  result. \<^verbatim>\<open>nodes[0]\<close> raises on an empty list.
\<close>

definition validate_and_set_node_graph ::
  "generation_node list \<Rightarrow> error + (generation_node list \<times> nat)" where
  "validate_and_set_node_graph nodes =
     (case unique_node_names nodes [] of
        Inl e \<Rightarrow> Inl e
      | Inr node_names \<Rightarrow>
          (case check_node_graph node_names nodes of
             Inl e \<Rightarrow> Inl e
           | Inr u \<Rightarrow> (case nodes of [] \<Rightarrow> Inl IndexError | x # xs \<Rightarrow> Inr (nodes, 0))))"

text \<open>\<^verbatim>\<open>"+".join(names)\<close> and \<^verbatim>\<open>_make_default_name\<close>.\<close>

fun join_plus :: "string list \<Rightarrow> string" where
  "join_plus [] = []"
| "join_plus [x] = x"
| "join_plus (x # y # ys) = x @ ''+'' @ join_plus (y # ys)"

definition make_default_name :: "generation_node list \<Rightarrow> error + string" where
  "make_default_name ns =
     (if ns = [] then Inl UnsupportedError
      else if is_node_based ns then Inr (join_plus (map node_name ns))
      else Inr (join_plus
                  (map (\<lambda>k. if take 4 k = ''get_'' then drop 4 k else k) (map model_key ns))))"

text \<open>
  \<^verbatim>\<open>GenerationStrategy.__init__(steps, name, nodes)\<close>. An argument left out is
  \<open>None\<close>; \<^verbatim>\<open>name or ...\<close> takes the default for a missing and for an empty name.
\<close>

definition init ::
  "generation_node list option \<Rightarrow> string option \<Rightarrow> generation_node list option
    \<Rightarrow> error + generation_strategy" where
  "init steps name nodes =
     (if \<not> ((steps = None) \<noteq> (nodes = None))
      then Inl GenerationStrategyMisconfiguredException
      else
        (case (case steps of
                 Some st \<Rightarrow>
                   if list_all is_generation_step st then validate_and_set_step_sequence st
                   else Inl GenerationStrategyMisconfiguredException
               | None \<Rightarrow>
                   (case nodes of
                      Some ns \<Rightarrow>
                        if is_node_based ns then validate_and_set_node_graph ns
                        else Inl GenerationStrategyMisconfiguredException
                    | None \<Rightarrow> Inl GenerationStrategyMisconfiguredException)) of
           Inl e \<Rightarrow> Inl e
         | Inr (ns, c) \<Rightarrow>
             (case (case name of
                      None \<Rightarrow> make_default_name ns
                    | Some nm \<Rightarrow> if nm = [] then make_default_name ns else Inr nm) of
                Inl e \<Rightarrow> Inl e
              | Inr nm \<Rightarrow>
                  Inr \<lparr>gs_nodes = ns, gs_curr = c,
                       gs_uses_registered_models = (\<not> list_ex uses_factory_function ns),
                       gs_generator_runs = [], gs_name = nm,
                       gs_experiment = None, gs_model = None\<rparr>)))"

section \<open>The name attribute\<close>

text \<open>
  The class body binds \<^verbatim>\<open>name\<close> three times, in this order: a property with a
  getter, that property with a setter added (\<^verbatim>\<open>@name.setter\<close>), and a new property
  with a getter only. A class body is run top to bottom and each binding replaces the
  one before it in the class namespace; \<^verbatim>\<open>prop.setter(f)\<close> is a copy of
  \<^verbatim>\<open>prop\<close> with setter \<^verbatim>\<open>f\<close>.
\<close>

datatype py_property =
  Property "generation_strategy \<Rightarrow> string"
           "(generation_strategy \<Rightarrow> string \<Rightarrow> generation_strategy) option"

datatype class_stmt =
    DefProperty string "generation_strategy \<Rightarrow> string"
  | DefSetter string "generation_strategy \<Rightarrow> string \<Rightarrow> generation_strategy"

fun exec_class_stmt :: "(string \<rightharpoonup> py_property) \<Rightarrow> class_stmt \<Rightarrow> (string \<rightharpoonup> py_property)" where
  "exec_class_stmt ns (DefProperty k fget) = ns(k \<mapsto> Property fget None)"
| "exec_class_stmt ns (DefSetter k fset) =
     (case ns k of
        None \<Rightarrow> ns
      | Some (Property fget old) \<Rightarrow> ns(k \<mapsto> Property fget (Some fset)))"

definition name_statements :: "class_stmt list" where
  "name_statements =
     [DefProperty ''name'' gs_name,
      DefSetter ''name'' (\<lambda>s name. s\<lparr>gs_name := name\<rparr>),
      DefProperty ''name'' gs_name]"

definition class_namespace :: "string \<rightharpoonup> py_property" where
  "class_namespace = foldl exec_class_stmt Map.empty name_statements"

text \<open>
  \<^verbatim>\<open>strategy.name = value\<close>: a property found in the class takes the assignment; it
  raises \<^verbatim>\<open>AttributeError\<close> when it has no setter.
\<close>

definition set_name ::
  "string \<Rightarrow> generation_strategy \<Rightarrow> (error + unit) \<times> generation_strategy" where
  "set_name v s =
     (case class_namespace ''name'' of
        Some (Property fget (Some fset)) \<Rightarrow> (Inr (), fset s v)
      | Some (Property fget None) \<Rightarrow> (Inl AttributeError, s)
      | None \<Rightarrow> (Inr (), s))"

section \<open>A two-node strategy to run the model on\<close>

text \<open>
  A quasi-random node \<^verbatim>\<open>Sobol\<close> with one criterion to the node \<^verbatim>\<open>BO\<close>, which
  continues the trial, and the node \<^verbatim>\<open>BO\<close> without criteria.
\<close>

definition ex_tc :: transition_criterion where
  "ex_tc = \<lparr>criterion_class = ''MinTrials'', transition_to = Some ''BO'',
            continue_trial_generation = True\<rparr>"

definition ex_node :: "string \<Rightarrow> transition_criterion list \<Rightarrow> generation_node" where
  "ex_node nm tcs =
     \<lparr>node_name = nm, is_generation_step = False, transition_criteria = tcs,
      previous_node_name = None, should_skip = False, fitted_model = None,
      model_key = nm, uses_factory_function = False, step_num_trials = - 1,
      step_max_parallelism = None, step_completion_criteria = [], step_index = None\<rparr>"

definition ex_strategy :: "generation_node list \<Rightarrow> generation_strategy" where
  "ex_strategy ns =
     \<lparr>gs_nodes = ns, gs_curr = 0, gs_uses_registered_models = True,
      gs_generator_runs = [], gs_name = ''gs'', gs_experiment = None, gs_model = None\<rparr>"

definition ex_two_nodes :: "generation_node list" where
  "ex_two_nodes = [ex_node ''Sobol'' [ex_tc], ex_node ''BO'' []]"

definition ex_exp :: "string \<Rightarrow> ax_experiment" where
  "ex_exp nm = \<lparr>exp_name = nm, exp_metrics = [''m'']\<rparr>"

definition ex_gr :: "string \<Rightarrow> generator_run" where
  "ex_gr k = \<lparr>gr_arms = [''arm_'' @ k], gr_model_key = k\<rparr>"

text \<open>
  Node behaviour for the example. \<^verbatim>\<open>Sobol\<close> asks to move to \<^verbatim>\<open>BO\<close> once the
  strategy has a generator run; every node generates one arm and caches its model,
  except that \<^verbatim>\<open>BO\<close> raises \<^verbatim>\<open>DataRequiredError\<close> when \<open>bo_has_data\<close> is
  false. \<open>completed\<close> is what every node answers for \<^verbatim>\<open>is_completed\<close> (a completed
  node also asks to move on), \<open>limit\<close> what it answers for \<^verbatim>\<open>new_trial_limit\<close>.
\<close>

definition ex_env :: "bool \<Rightarrow> bool \<Rightarrow> int \<Rightarrow> node_env" where
  "ex_env bo_has_data completed limit =
     \<lparr>should_transition_to_next_node =
        (\<lambda>s nd r.
           if completed \<or> (node_name nd = ''Sobol'' \<and> gs_generator_runs s \<noteq> [])
           then Inr (True, Some ''BO'')
           else Inr (False, Some (node_name nd))),
      is_completed = (\<lambda>s nd. completed),
      node_gen =
        (\<lambda>s nd kw.
           if node_name nd = ''BO'' \<and> \<not> bo_has_data then (Inl DataRequiredError, nd)
           else (Inr (Some (ex_gr (node_name nd))),
                 nd\<lparr>fitted_model := Some (Adapter (node_name nd))\<rparr>)),
      new_trial_limit = (\<lambda>s nd r. limit),
      extract_pending_observations = (\<lambda>e. None)\<rparr>"

definition ex_call :: gen_call where
  "ex_call = \<lparr>c_experiment = ex_exp ''e'', c_data = None, c_n = Some 1,
              c_fixed_features = None, c_arms_per_node = None,
              c_first_generation_in_multi = True\<rparr>"

text \<open>The two-node strategy after \<^verbatim>\<open>Sobol\<close> has produced its run for experiment \<^verbatim>\<open>e\<close>.\<close>

definition ex_after_sobol :: generation_strategy where
  "ex_after_sobol =
     (ex_strategy
        [(ex_node ''Sobol'' [ex_tc])\<lparr>fitted_model := Some (Adapter ''Sobol'')\<rparr>,
         ex_node ''BO'' []])
       \<lparr>gs_generator_runs := [ex_gr ''Sobol''],
        gs_experiment := Some (ex_exp ''e''),
        gs_model := Some (Adapter ''Sobol'')\<rparr>"

text \<open>The same strategy after the move to \<^verbatim>\<open>BO\<close>, whose generation raised.\<close>

definition ex_after_move :: generation_strategy where
  "ex_after_move =
     ex_after_sobol
       \<lparr>gs_nodes :=
          [(ex_node ''Sobol'' [ex_tc])\<lparr>fitted_model := Some (Adapter ''Sobol'')\<rparr>,
           (ex_node ''BO'' [])\<lparr>previous_node_name := Some ''BO''\<rparr>],
        gs_curr := 1, gs_model := None\<rparr>"

section \<open>Predicates used in the statements\<close>

text \<open>
  A criterion of node \<open>nd\<close> that \<^verbatim>\<open>_validate_and_set_node_graph\<close> rejects, given the
  node names of the strategy: no target on a criterion whose class name does not contain
  \<^verbatim>\<open>MaxGenerationParallelism\<close>, a target that is no node name, or another criterion
  of the node with the same target and the other \<^verbatim>\<open>continue_trial_generation\<close>.
\<close>

definition rejected_criterion ::
  "string list \<Rightarrow> generation_node \<Rightarrow> transition_criterion \<Rightarrow> bool" where
  "rejected_criterion names nd tc =
     (case transition_to tc of
        None \<Rightarrow> \<not> str_contains ''MaxGenerationParallelism'' (criterion_class tc)
      | Some t \<Rightarrow>
          t \<notin> set names
          \<or> list_ex (\<lambda>tc'. transition_to tc' = Some t
                        \<and> continue_trial_generation tc' \<noteq> continue_trial_generation tc)
               (transition_criteria nd))"

section \<open>Evaluation rules\<close>

lemmas ex_defs = ex_env_def ex_strategy_def ex_two_nodes_def ex_node_def ex_tc_def ex_exp_def
  ex_gr_def ex_call_def ex_after_sobol_def ex_after_move_def

lemmas model_defs = curr_node_def nodes_dict_def maybe_transition_to_next_node_def
  optimization_complete_def should_continue_gen_for_trial_def transition_edges_def
  edge_criteria_def
  extend_pending_observations_def set_experiment_def validate_arms_per_node_def
  gen_with_multiple_nodes_def gen_def alloc_def
  gen_for_multiple_trials_with_multiple_models_def clamp_num_trials_def Let_def

section \<open>What a call leaves unchanged\<close>

lemma move_to_node_frame:
  "gs_generator_runs (move_to_node ns i k s) = gs_generator_runs s
   \<and> gs_nodes (move_to_node ns i k s) = gs_nodes s
   \<and> gs_experiment (move_to_node ns i k s) = gs_experiment s
   \<and> gs_name (move_to_node ns i k s) = gs_name s"
  by (induction ns arbitrary: i s) auto

lemma maybe_transition_frame:
  assumes "maybe_transition_to_next_node env r s = (x, s')"
  shows "gs_generator_runs s' = gs_generator_runs s \<and> gs_nodes s' = gs_nodes s
         \<and> gs_experiment s' = gs_experiment s \<and> gs_name s' = gs_name s"
  using assms
  by (auto simp: maybe_transition_to_next_node_def move_to_node_frame
           split: sum.splits prod.splits if_splits option.splits)

lemma maybe_transition_error:
  assumes "maybe_transition_to_next_node env r s = (Inl e, s')"
  shows "s' = s \<and> (e \<in> {GenerationStrategyCompleted, ValueError, IndexError}
           \<or> should_transition_to_next_node env s (curr_node s) r = Inl e)"
  using assms
  by (auto simp: maybe_transition_to_next_node_def
           split: sum.splits prod.splits if_splits option.splits)

lemma should_continue_error:
  assumes "should_continue_gen_for_trial env s = Inl e"
  shows "e \<in> {AssertionError, KeyError}
           \<or> should_transition_to_next_node env s (curr_node s) False = Inl e"
  using assms
  by (auto simp: should_continue_gen_for_trial_def
           split: sum.splits prod.splits if_splits option.splits)

lemma set_experiment_bound:
  "set_experiment e (s\<lparr>gs_experiment := Some e\<rparr>) = (Inr (), s\<lparr>gs_experiment := Some e\<rparr>)"
  by (simp add: set_experiment_def)

lemma set_experiment_ok:
  "set_experiment e s = (Inr u, s1) \<Longrightarrow> s1 = s\<lparr>gs_experiment := Some e\<rparr>"
  by (auto simp: set_experiment_def split: option.splits if_splits)

section \<open>The loop over the nodes of one trial\<close>

lemma gen_loop_nonempty:
  "gen_loop fuel env c p grs s h = Some (Inr out, s', h') \<Longrightarrow> out \<noteq> []"
proof (induction fuel arbitrary: grs s h)
  case 0
  then show ?case by simp
next
  case (Suc fuel)
  then show ?case
    by (auto simp: Let_def split: sum.splits option.splits prod.splits if_splits)
qed

lemma gen_loop_heap_frame:
  "gen_loop fuel env c p grs s h = Some (r, s', h')
    \<Longrightarrow> length h' = length h \<and> (\<forall>q. q \<noteq> p \<longrightarrow> h' ! q = h ! q)"
proof (induction fuel arbitrary: grs s h)
  case 0
  then show ?case by simp
next
  case (Suc fuel)
  then show ?case
    by (fastforce simp: Let_def split: sum.splits option.splits prod.splits if_splits)
qed

lemma gen_loop_runs:
  "gen_loop fuel env c p grs s h = Some (Inr out, s', h')
    \<Longrightarrow> gs_generator_runs s = base @ grs
    \<Longrightarrow> gs_generator_runs s' = base @ out"
proof (induction fuel arbitrary: grs s h)
  case 0
  then show ?case by simp
next
  case (Suc fuel)
  then show ?case
    by (auto simp: Let_def dest!: maybe_transition_frame
          split: sum.splits option.splits prod.splits if_splits)
qed

lemma gen_loop_data_required:
  assumes H: "\<And>s nd r. should_transition_to_next_node env s nd r \<noteq> Inl DataRequiredError"
  shows "gen_loop fuel env c p grs s h = Some (Inl DataRequiredError, s', h')
    \<Longrightarrow> grs = [] \<and> gs_generator_runs s' = gs_generator_runs s \<and> h' = h"
proof (induction fuel arbitrary: grs s h)
  case 0
  then show ?case by simp
next
  case (Suc fuel)
  from Suc.prems show ?case using H
    by (auto simp: Let_def
          dest!: maybe_transition_frame maybe_transition_error should_continue_error
          dest: Suc.IH
          split: sum.splits option.splits prod.splits if_splits)
qed

section \<open>Pending observations\<close>

lemma take_snoc_split:
  assumes "take (Suc (length grs)) out = grs @ [gr]"
  shows "take (length grs) out = grs \<and> drop (length grs) out = gr # drop (Suc (length grs)) out"
proof -
  have "out = (grs @ [gr]) @ drop (Suc (length grs)) out"
    using assms append_take_drop_id [of "Suc (length grs)" out] by simp
  then obtain rest where o: "out = grs @ gr # rest" and r: "rest = drop (Suc (length grs)) out"
    by simp
  from o have "take (length grs) out = grs" by simp
  moreover from o have "drop (length grs) out = gr # rest" by simp
  moreover from o have "drop (Suc (length grs)) out = rest" by simp
  ultimately show ?thesis by simp
qed

text \<open>
  When the loop returns, its list starts with the runs it was entered with, and the
  dictionary it works on has been extended with the runs it added, one after the other.
\<close>

lemma gen_loop_pending_exact:
  "gen_loop fuel env c p grs s h = Some (Inr out, s', h')
    \<Longrightarrow> p < length h
    \<Longrightarrow> take (length grs) out = grs
        \<and> h' ! p = foldl (extend_pending_observations (c_experiment c)) (h ! p)
                     (drop (length grs) out)"
proof (induction fuel arbitrary: grs s h)
  case 0
  then show ?case by simp
next
  case (Suc fuel)
  from Suc.prems show ?case
    by (auto simp: Let_def dest!: Suc.IH take_snoc_split
          split: sum.splits option.splits prod.splits if_splits)
qed

section \<open>One call of the loop, and the loop over trials\<close>

lemma gwmn_unfold:
  "gen_with_multiple_nodes fuel env c po s h =
     (if optimization_complete env (s\<lparr>gs_experiment := Some (c_experiment c)\<rparr>)
      then Some (Inl GenerationStrategyCompleted, s\<lparr>gs_experiment := Some (c_experiment c)\<rparr>, h)
      else if validate_arms_per_node (s\<lparr>gs_experiment := Some (c_experiment c)\<rparr>)
                (c_arms_per_node c) = Inl UserInputError
      then Some (Inl UserInputError, s\<lparr>gs_experiment := Some (c_experiment c)\<rparr>,
                 snd (case po of Some r \<Rightarrow> (r, h) | None \<Rightarrow> alloc h []))
      else gen_loop fuel env c (fst (case po of Some r \<Rightarrow> (r, h) | None \<Rightarrow> alloc h [])) []
             (s\<lparr>gs_experiment := Some (c_experiment c)\<rparr>)
             (snd (case po of Some r \<Rightarrow> (r, h) | None \<Rightarrow> alloc h [])))"
  by (auto simp: gen_with_multiple_nodes_def Let_def set_experiment_bound
        validate_arms_per_node_def split: option.splits sum.splits prod.splits)

lemma gwmn_nonempty:
  "gen_with_multiple_nodes fuel env c po s h = Some (Inr out, s', h') \<Longrightarrow> out \<noteq> []"
  by (auto simp: gwmn_unfold dest: gen_loop_nonempty split: if_splits)

lemma gwmn_runs:
  "gen_with_multiple_nodes fuel env c po s h = Some (Inr out, s', h')
     \<Longrightarrow> gs_generator_runs s' = gs_generator_runs s @ out"
  by (auto simp: gwmn_unfold dest: gen_loop_runs [where base = "gs_generator_runs s"]
        split: if_splits)

lemma gwmn_data_required:
  assumes H: "\<And>s nd r. should_transition_to_next_node env s nd r \<noteq> Inl DataRequiredError"
    and "gen_with_multiple_nodes fuel env c po s h = Some (Inl DataRequiredError, s', h')"
  shows "gs_generator_runs s' = gs_generator_runs s"
  using assms(2) gen_loop_data_required [OF H]
  by (fastforce simp: gwmn_unfold split: if_splits)

lemma gwmn_heap_frame:
  "gen_with_multiple_nodes fuel env c (Some p) s h = Some (r, s', h')
     \<Longrightarrow> length h' = length h \<and> (\<forall>q. q \<noteq> p \<longrightarrow> h' ! q = h ! q)"
  by (auto simp: gwmn_unfold dest: gen_loop_heap_frame split: if_splits)

lemma gwmn_pending_exact:
  assumes "gen_with_multiple_nodes fuel env c (Some p) s h = Some (Inr out, s', h')"
    and "p < length h"
  shows "h' ! p = foldl (extend_pending_observations (c_experiment c)) (h ! p) out"
  using assms by (auto simp: gwmn_unfold dest!: gen_loop_pending_exact split: if_splits)

lemma multi_loop_length:
  "multi_loop k fuel env c p acc s h = Some (Inr grss, s', h')
     \<Longrightarrow> length grss = length acc + k"
proof (induction k arbitrary: acc s h)
  case 0
  then show ?case by simp
next
  case (Suc k)
  from Suc.prems show ?case
    by (auto dest!: Suc.IH split: option.splits sum.splits prod.splits)
qed

lemma multi_loop_heap_frame:
  "multi_loop k fuel env c p acc s h = Some (r, s', h')
     \<Longrightarrow> length h' = length h \<and> (\<forall>q. q \<noteq> p \<longrightarrow> h' ! q = h ! q)"
proof (induction k arbitrary: acc s h)
  case 0
  then show ?case by simp
next
  case (Suc k)
  from Suc.prems show ?case
    by (auto dest!: Suc.IH gwmn_heap_frame split: option.splits sum.splits prod.splits)
qed

text \<open>
  The dictionary the trials share: after \<open>k\<close> trials it is the dictionary the first
  trial was given, extended with the runs of each trial in turn.
\<close>

lemma multi_loop_pending_exact:
  "multi_loop k fuel env c p acc s h = Some (Inr grss, s', h')
     \<Longrightarrow> p < length h
     \<Longrightarrow> take (length acc) grss = acc
         \<and> h' ! p = foldl (extend_pending_observations (c_experiment c)) (h ! p)
                      (concat (drop (length acc) grss))"
proof (induction k arbitrary: acc s h)
  case 0
  then show ?case by simp
next
  case (Suc k)
  from Suc.prems obtain grs s1 h1 where
    g: "gen_with_multiple_nodes fuel env (c\<lparr>c_first_generation_in_multi := (length acc < 1)\<rparr>)
          (Some p) s h = Some (Inr grs, s1, h1)"
    and m: "multi_loop k fuel env c p (acc @ [grs]) s1 h1 = Some (Inr grss, s', h')"
    by (auto split: option.splits sum.splits prod.splits)
  have len: "p < length h1" using gwmn_heap_frame [OF g] Suc.prems(2) by simp
  have one: "h1 ! p = foldl (extend_pending_observations (c_experiment c)) (h ! p) grs"
    using gwmn_pending_exact [OF g Suc.prems(2)] by simp
  from Suc.IH [OF m len] have
    ih: "take (Suc (length acc)) grss = acc @ [grs]"
        "h' ! p = foldl (extend_pending_observations (c_experiment c)) (h1 ! p)
                    (concat (drop (Suc (length acc)) grss))"
    by simp_all
  from take_snoc_split [OF ih(1)] have
    sp: "take (length acc) grss = acc" "drop (length acc) grss = grs # drop (Suc (length acc)) grss"
    by simp_all
  show ?case using sp ih(2) one by simp
qed

text \<open>
  From one trial to the next: when the loop of a trial returns its runs, the remaining
  trials run on the same dictionary, which by then holds those runs' arms; it is the
  dictionary every node's \<^verbatim>\<open>gen\<close> of the next trial is given.
\<close>

lemma multi_loop_next_trial:
  assumes "gen_with_multiple_nodes fuel env (c\<lparr>c_first_generation_in_multi := (length acc < 1)\<rparr>)
             (Some p) s h = Some (Inr grs, s1, h1)"
    and "p < length h"
  shows "multi_loop (Suc k) fuel env c p acc s h = multi_loop k fuel env c p (acc @ [grs]) s1 h1
       \<and> h1 ! p = foldl (extend_pending_observations (c_experiment c)) (h ! p) grs"
  using assms gwmn_pending_exact [OF assms] by simp

text \<open>
  \<^verbatim>\<open>gen_for_multiple_trials_with_multiple_models\<close> changes no dictionary that exists
  before the call, in any outcome. The dictionary it works on is the new one at
  reference \<open>length h\<close>; when the call returns, that dictionary is the copy of the
  caller's (the result of \<^verbatim>\<open>extract_pending_observations\<close>, or \<^verbatim>\<open>{}\<close>, when the
  caller passed none) extended with the runs of every trial in turn.
\<close>

lemma multi_trials_pending_observations:
  "(gen_for_multiple_trials_with_multiple_models fuel env ex data po n
       fixed_features num_trials arms_per_node s h = Some (r, s', h')
      \<longrightarrow> (\<forall>q<length h. h' ! q = h ! q))
   \<and> (gen_for_multiple_trials_with_multiple_models fuel env ex data po n
       fixed_features num_trials arms_per_node s h = Some (Inr grss, s', h')
      \<longrightarrow> h' ! length h
            = foldl (extend_pending_observations ex)
                (case po of
                   None \<Rightarrow> (case extract_pending_observations env ex of
                              None \<Rightarrow> [] | Some x \<Rightarrow> x)
                 | Some r \<Rightarrow> h ! r)
                (concat grss))"
proof -
  have frame: "\<forall>q<length h. h' ! q = h ! q"
    if a: "gen_for_multiple_trials_with_multiple_models fuel env ex data po n
       fixed_features num_trials arms_per_node s h = Some (r, s', h')"
  proof (cases "set_experiment ex s")
    case (Pair x s1)
    show ?thesis
    proof (cases x)
      case (Inl e)
      with a Pair show ?thesis
        by (simp add: gen_for_multiple_trials_with_multiple_models_def)
    next
      case (Inr u)
      with a Pair obtain k c v where
        "multi_loop k fuel env c (length h) [] s1 (h @ [v]) = Some (r, s', h')"
        by (auto simp: gen_for_multiple_trials_with_multiple_models_def alloc_def)
      from multi_loop_heap_frame [OF this] show ?thesis
        by (auto simp: nth_append)
    qed
  qed
  have copy: "h' ! length h
            = foldl (extend_pending_observations ex)
                (case po of
                   None \<Rightarrow> (case extract_pending_observations env ex of
                              None \<Rightarrow> [] | Some x \<Rightarrow> x)
                 | Some r \<Rightarrow> h ! r)
                (concat grss)"
    if a: "gen_for_multiple_trials_with_multiple_models fuel env ex data po n
       fixed_features num_trials arms_per_node s h = Some (Inr grss, s', h')"
  proof -
    let ?v = "case po of
                   None \<Rightarrow> (case extract_pending_observations env ex of
                              None \<Rightarrow> [] | Some x \<Rightarrow> x)
                 | Some r \<Rightarrow> h ! r"
    from a obtain k s1 where m:
      "multi_loop k fuel env
         \<lparr>c_experiment = ex, c_data = data, c_n = n,
          c_fixed_features = fixed_features, c_arms_per_node = arms_per_node,
          c_first_generation_in_multi = True\<rparr>
         (length h) [] s1 (h @ [?v]) = Some (Inr grss, s', h')"
      by (auto simp: gen_for_multiple_trials_with_multiple_models_def alloc_def
            split: prod.splits sum.splits)
    from multi_loop_pending_exact [OF m] show ?thesis by simp
  qed
  from frame copy show ?thesis by blast
qed

text \<open>
  \<^verbatim>\<open>gen\<close> makes no copy: when it returns a run, the dictionary the caller passed has
  been extended with that run, and no other dictionary has changed.
\<close>

lemma gen_pending_observations_in_place:
  assumes "gen fuel env ex data (Some p) n fixed_features s h = Some (Inr g, s2, h2)"
    and "p < length h"
  shows "h2 ! p = extend_pending_observations ex (h ! p) g
       \<and> length h2 = length h \<and> (\<forall>q. q \<noteq> p \<longrightarrow> h2 ! q = h ! q)"
proof -
  let ?c = "\<lparr>c_experiment = ex, c_data = data, c_n = Some n,
             c_fixed_features = fixed_features, c_arms_per_node = None,
             c_first_generation_in_multi = True\<rparr>"
  from assms(1) obtain s1 grs where
    w: "gen_with_multiple_nodes fuel env ?c (Some p) s1 h = Some (Inr grs, s2, h2)"
    and g: "grs = [g]"
    by (auto simp: gen_def
          split: prod.splits sum.splits option.splits if_splits list.splits)
  from gwmn_pending_exact [OF w assms(2)] gwmn_heap_frame [OF w] g
  show ?thesis by simp
qed

section \<open>Validation of the node graph\<close>

lemma unique_node_names_result:
  "unique_node_names ns acc = Inl e \<Longrightarrow> e = GenerationStrategyMisconfiguredException"
  "unique_node_names ns acc = Inr names \<Longrightarrow> set names = set acc \<union> node_name ` set ns"
  by (induction ns arbitrary: acc) (auto split: if_splits)

lemma check_edge_error:
  "check_edge names edge = Inl e \<Longrightarrow> e = GenerationStrategyMisconfiguredException"
  by (auto simp: check_edge_def split: prod.splits if_splits)

lemma check_edges_error:
  "check_edges names es = Inl e \<Longrightarrow> e = GenerationStrategyMisconfiguredException"
  by (induction es) (auto dest: check_edge_error split: sum.splits)

lemma check_edges_ok:
  "check_edges names es = Inr u \<Longrightarrow> edge \<in> set es \<Longrightarrow> check_edge names edge = Inr ()"
  by (induction es) (auto split: sum.splits)

lemma check_node_graph_error:
  "check_node_graph names ns = Inl e \<Longrightarrow> e = GenerationStrategyMisconfiguredException"
  by (induction ns) (auto dest: check_edges_error split: sum.splits)

lemma check_node_graph_ok:
  "check_node_graph names ns = Inr u \<Longrightarrow> nd \<in> set ns
     \<Longrightarrow> check_edges names (transition_edges nd) = Inr ()"
  by (induction ns) (auto split: sum.splits)

lemma edge_of_criterion:
  "tc \<in> set (transition_criteria nd) \<Longrightarrow>
     (transition_to tc, filter (\<lambda>x. transition_to x = transition_to tc) (transition_criteria nd))
       \<in> set (transition_edges nd)"
  by (auto simp: transition_edges_def)

lemma two_values_remdups:
  assumes "x \<in> set xs" "y \<in> set xs" "f x \<noteq> f y"
  shows "1 < length (remdups (map f xs))"
proof -
  have "{f x, f y} \<subseteq> set (map f xs)" using assms by auto
  then have "card {f x, f y} \<le> card (set (map f xs))" by (intro card_mono) auto
  moreover have "card {f x, f y} = 2" using assms(3) by simp
  ultimately show ?thesis by (simp add: length_remdups_card_conv)
qed

lemma rejected_criterion_edge:
  assumes "tc \<in> set (transition_criteria nd)" "rejected_criterion names nd tc"
  shows "check_edge names
           (transition_to tc,
            filter (\<lambda>x. transition_to x = transition_to tc) (transition_criteria nd)) \<noteq> Inr ()"
proof (cases "transition_to tc")
  case None
  with assms have "\<not> str_contains ''MaxGenerationParallelism'' (criterion_class tc)"
    by (simp add: rejected_criterion_def)
  with assms(1) None have
    "list_ex (\<lambda>tc. \<not> str_contains ''MaxGenerationParallelism'' (criterion_class tc))
       (filter (\<lambda>x. transition_to x = None) (transition_criteria nd))"
    unfolding list_ex_iff by auto
  with None show ?thesis by (simp add: check_edge_def)
next
  case (Some t)
  show ?thesis
  proof (cases "t \<in> set names")
    case False
    with Some show ?thesis by (simp add: check_edge_def)
  next
    case True
    with assms Some obtain tc' where
      tc': "tc' \<in> set (transition_criteria nd)" "transition_to tc' = Some t"
           "continue_trial_generation tc' \<noteq> continue_trial_generation tc"
      by (auto simp: rejected_criterion_def list_ex_iff)
    let ?tcs = "filter (\<lambda>x. transition_to x = Some t) (transition_criteria nd)"
    have in1: "tc' \<in> set ?tcs" using tc' by simp
    have in2: "tc \<in> set ?tcs" using assms(1) Some by simp
    have "1 < length (remdups (map continue_trial_generation ?tcs))"
      by (rule two_values_remdups [OF in1 in2 tc'(3)])
    with Some True show ?thesis by (simp add: check_edge_def)
  qed
qed

lemma check_node_graph_rejects:
  assumes "nd \<in> set ns" "tc \<in> set (transition_criteria nd)" "rejected_criterion names nd tc"
  shows "check_node_graph names ns = Inl GenerationStrategyMisconfiguredException"
proof (cases "check_node_graph names ns")
  case (Inl e)
  then show ?thesis using check_node_graph_error by simp
next
  case (Inr u)
  from check_node_graph_ok [OF Inr assms(1)]
  have "check_edges names (transition_edges nd) = Inr ()" .
  from check_edges_ok [OF this edge_of_criterion [OF assms(2)]]
  show ?thesis using rejected_criterion_edge [OF assms(2,3)] by simp
qed

section \<open>Claims\<close>

text \<open>
  C9. Whenever \<^verbatim>\<open>_gen_with_multiple_nodes\<close> returns normally, the list of generator
  runs it returns is not empty; so \<^verbatim>\<open>gen\<close>, given that list, either raises
  \<^verbatim>\<open>UnsupportedError\<close> (more than one run) or returns its first element, and the
  indexing \<^verbatim>\<open>gr[0]\<close> does not fail.
\<close>

theorem gen_with_multiple_nodes_nonempty:
  assumes "gen_with_multiple_nodes fuel env c po s h = Some (Inr grs, s', h')"
  shows "grs \<noteq> []
       \<and> (set_experiment experiment s0 = (Inr (), s)
            \<and> c = \<lparr>c_experiment = experiment, c_data = data, c_n = Some n,
                   c_fixed_features = fixed_features, c_arms_per_node = None,
                   c_first_generation_in_multi = True\<rparr>
          \<longrightarrow> gen fuel env experiment data po n fixed_features s0 h
                = Some (if 1 < length grs then Inl UnsupportedError else Inr (hd grs),
                        s', h'))"
proof -
  from gwmn_nonempty [OF assms] have ne: "grs \<noteq> []" .
  then obtain g rest where "grs = g # rest" by (cases grs) auto
  with assms ne show ?thesis by (auto simp: gen_def)
qed

theorem gen_with_multiple_nodes_nonempty_witness:
  "[ex_gr ''Sobol''] \<noteq> []
   \<and> gen 2 (ex_env False False (- 1)) (ex_exp ''e'') None None 1 None
        (ex_strategy ex_two_nodes) []
      = Some (Inr (ex_gr ''Sobol''), ex_after_move, [[(''m'', [''arm_Sobol''])]])"
proof -
  have run: "gen_with_multiple_nodes 2 (ex_env False False (- 1)) ex_call None
               ((ex_strategy ex_two_nodes)\<lparr>gs_experiment := Some (ex_exp ''e'')\<rparr>) []
             = Some (Inr [ex_gr ''Sobol''], ex_after_move, [[(''m'', [''arm_Sobol''])]])"
    by (simp add: ex_defs model_defs numeral_2_eq_2)
  have bind: "set_experiment (ex_exp ''e'') (ex_strategy ex_two_nodes)
                = (Inr (), (ex_strategy ex_two_nodes)\<lparr>gs_experiment := Some (ex_exp ''e'')\<rparr>)"
    by (simp add: ex_defs model_defs)
  have call: "ex_call = \<lparr>c_experiment = ex_exp ''e'', c_data = None, c_n = Some 1,
                c_fixed_features = None, c_arms_per_node = None,
                c_first_generation_in_multi = True\<rparr>"
    by (simp add: ex_call_def)
  from gen_with_multiple_nodes_nonempty [OF run, of "ex_exp ''e''" "ex_strategy ex_two_nodes"
         None 1 None] bind call
  show ?thesis by simp
qed

text \<open>
  C1. In a round of the multi-node loop with \<open>grs\<close> the generator runs produced so far
  in the call (the transition check and the transition have gone through), a
  \<^verbatim>\<open>DataRequiredError\<close> raised by the node's \<^verbatim>\<open>gen\<close> ends the call: it is
  raised to the caller if and only if \<open>grs\<close> is empty, and otherwise it is swallowed
  and the call returns \<open>grs\<close>, the partial list. Over a whole call of
  \<^verbatim>\<open>_gen_with_multiple_nodes\<close>: a list it returns is not empty and is what the call
  appended to \<^verbatim>\<open>_generator_runs\<close>; and where no transition check raises
  \<^verbatim>\<open>DataRequiredError\<close>, the call raising it has appended no run.
\<close>

theorem data_required_propagated_iff_no_runs:
  assumes "should_transition_to_next_node env s (curr_node s) False = Inr (st, Some k)"
    and "nodes_dict s k = Some i"
    and "maybe_transition_to_next_node env True
           (if st then s\<lparr>gs_nodes := (gs_nodes s)
                         [i := (gs_nodes s ! i)
                                 \<lparr>previous_node_name := Some k, should_skip := False\<rparr>]\<rparr>
            else s) = (Inr tr, s2)"
    and "node_gen env s2 (curr_node s2)
           \<lparr>kw_experiment = c_experiment c, kw_data = c_data c,
            kw_pending_observations = h ! p,
            kw_skip_fit = (\<not> (c_first_generation_in_multi c \<or> tr)),
            kw_grs_this_gen = grs, kw_n = c_n c,
            kw_fixed_features = c_fixed_features c,
            kw_arms_per_node = c_arms_per_node c\<rparr> = (Inl DataRequiredError, nd)"
  shows "gen_loop (Suc fuel) env c p grs s h =
           Some (if grs = [] then Inl DataRequiredError else Inr grs,
                 s2\<lparr>gs_nodes := (gs_nodes s2)[gs_curr s2 := nd]\<rparr>, h)
       \<and> (gen_with_multiple_nodes fuel' env c' po s0 h0 = Some (Inr out, s', h')
            \<longrightarrow> out \<noteq> [] \<and> gs_generator_runs s' = gs_generator_runs s0 @ out)
       \<and> ((\<forall>s nd r. should_transition_to_next_node env s nd r \<noteq> Inl DataRequiredError)
            \<and> gen_with_multiple_nodes fuel' env c' po s0 h0
                = Some (Inl DataRequiredError, s', h')
            \<longrightarrow> gs_generator_runs s' = gs_generator_runs s0)"
proof -
  have round: "gen_loop (Suc fuel) env c p grs s h =
           Some (if grs = [] then Inl DataRequiredError else Inr grs,
                 s2\<lparr>gs_nodes := (gs_nodes s2)[gs_curr s2 := nd]\<rparr>, h)"
    using assms by (simp add: Let_def)
  have returned: "out \<noteq> [] \<and> gs_generator_runs s' = gs_generator_runs s0 @ out"
    if "gen_with_multiple_nodes fuel' env c' po s0 h0 = Some (Inr out, s', h')"
    using that gwmn_nonempty gwmn_runs by blast
  have raised: "gs_generator_runs s' = gs_generator_runs s0"
    if a: "(\<forall>s nd r. should_transition_to_next_node env s nd r \<noteq> Inl DataRequiredError)
            \<and> gen_with_multiple_nodes fuel' env c' po s0 h0
                = Some (Inl DataRequiredError, s', h')"
  proof -
    from a have H: "\<And>s nd r. should_transition_to_next_node env s nd r \<noteq> Inl DataRequiredError"
      by blast
    from a have r: "gen_with_multiple_nodes fuel' env c' po s0 h0
                      = Some (Inl DataRequiredError, s', h')"
      by blast
    from gwmn_data_required [OF H r] show ?thesis .
  qed
  from round returned raised show ?thesis by blast
qed

text \<open>
  The two-node trial of the spec: \<^verbatim>\<open>Sobol\<close> has produced a run, \<^verbatim>\<open>BO\<close> raises
  \<^verbatim>\<open>DataRequiredError\<close>, and the call returns the one run. With no run so far, the
  error of \<^verbatim>\<open>BO\<close> reaches the caller.
\<close>

theorem data_required_propagated_iff_no_runs_witness:
  "gen_loop (Suc 0) (ex_env False False (- 1)) ex_call 0 [ex_gr ''Sobol''] ex_after_sobol
       [[(''m'', [''arm_Sobol''])]]
     = Some (Inr [ex_gr ''Sobol''], ex_after_move, [[(''m'', [''arm_Sobol''])]])
   \<and> gen_loop (Suc 0) (ex_env False False (- 1)) ex_call 0 []
        ((ex_strategy [ex_node ''BO'' []])\<lparr>gs_experiment := Some (ex_exp ''e'')\<rparr>) [[]]
     = Some (Inl DataRequiredError,
             (ex_strategy [ex_node ''BO'' []])\<lparr>gs_experiment := Some (ex_exp ''e'')\<rparr>, [[]])
   \<and> gen_with_multiple_nodes 2 (ex_env False False (- 1)) ex_call None
        (ex_strategy ex_two_nodes) []
     = Some (Inr [ex_gr ''Sobol''], ex_after_move, [[(''m'', [''arm_Sobol''])]])
   \<and> gs_generator_runs ex_after_move
       = gs_generator_runs (ex_strategy ex_two_nodes) @ [ex_gr ''Sobol'']
   \<and> gen_with_multiple_nodes 2 (ex_env False False (- 1)) ex_call None ex_after_sobol []
     = Some (Inl DataRequiredError, ex_after_move, [[]])
   \<and> gs_generator_runs ex_after_move = gs_generator_runs ex_after_sobol"
proof -
  let ?env = "ex_env False False (- 1)"
  let ?bo = "(ex_strategy [ex_node ''BO'' []])\<lparr>gs_experiment := Some (ex_exp ''e'')\<rparr>"
  have a1: "should_transition_to_next_node ?env ex_after_sobol (curr_node ex_after_sobol) False
              = Inr (True, Some ''BO'')"
    by (simp add: ex_defs model_defs)
  have a2: "nodes_dict ex_after_sobol ''BO'' = Some 1"
    by (simp add: ex_defs model_defs)
  have a3: "maybe_transition_to_next_node ?env True
              (if True then ex_after_sobol\<lparr>gs_nodes := (gs_nodes ex_after_sobol)
                         [1 := (gs_nodes ex_after_sobol ! 1)
                                 \<lparr>previous_node_name := Some ''BO'', should_skip := False\<rparr>]\<rparr>
               else ex_after_sobol) = (Inr True, ex_after_move)"
    by (simp add: ex_defs model_defs)
  have a4: "node_gen ?env ex_after_move (curr_node ex_after_move)
              \<lparr>kw_experiment = c_experiment ex_call, kw_data = c_data ex_call,
               kw_pending_observations = [[(''m'', [''arm_Sobol''])]] ! 0,
               kw_skip_fit = (\<not> (c_first_generation_in_multi ex_call \<or> True)),
               kw_grs_this_gen = [ex_gr ''Sobol''], kw_n = c_n ex_call,
               kw_fixed_features = c_fixed_features ex_call,
               kw_arms_per_node = c_arms_per_node ex_call\<rparr>
              = (Inl DataRequiredError, (ex_node ''BO'' [])\<lparr>previous_node_name := Some ''BO''\<rparr>)"
    by (simp add: ex_defs model_defs)
  have b1: "should_transition_to_next_node ?env ?bo (curr_node ?bo) False
              = Inr (False, Some ''BO'')"
    by (simp add: ex_defs model_defs)
  have b2: "nodes_dict ?bo ''BO'' = Some 0"
    by (simp add: ex_defs model_defs)
  have b3: "maybe_transition_to_next_node ?env True
              (if False then ?bo\<lparr>gs_nodes := (gs_nodes ?bo)
                         [0 := (gs_nodes ?bo ! 0)
                                 \<lparr>previous_node_name := Some ''BO'', should_skip := False\<rparr>]\<rparr>
               else ?bo) = (Inr False, ?bo)"
    by (simp add: ex_defs model_defs)
  have b4: "node_gen ?env ?bo (curr_node ?bo)
              \<lparr>kw_experiment = c_experiment ex_call, kw_data = c_data ex_call,
               kw_pending_observations = [[]] ! 0,
               kw_skip_fit = (\<not> (c_first_generation_in_multi ex_call \<or> False)),
               kw_grs_this_gen = [], kw_n = c_n ex_call,
               kw_fixed_features = c_fixed_features ex_call,
               kw_arms_per_node = c_arms_per_node ex_call\<rparr>
              = (Inl DataRequiredError, ex_node ''BO'' [])"
    by (simp add: ex_defs model_defs)
  have never: "\<forall>s nd r. should_transition_to_next_node ?env s nd r \<noteq> Inl DataRequiredError"
    by (simp add: ex_env_def)
  have whole: "gen_with_multiple_nodes 2 ?env ex_call None (ex_strategy ex_two_nodes) []
                 = Some (Inr [ex_gr ''Sobol''], ex_after_move, [[(''m'', [''arm_Sobol''])]])"
    by (simp add: ex_defs model_defs numeral_2_eq_2)
  have whole_raised: "gen_with_multiple_nodes 2 ?env ex_call None ex_after_sobol []
                 = Some (Inl DataRequiredError, ex_after_move, [[]])"
    by (simp add: ex_defs model_defs numeral_2_eq_2)
  note t = data_required_propagated_iff_no_runs
      [OF a1 a2 a3 a4, where fuel = 0 and fuel' = 2 and c' = ex_call and po = None
         and ?h0.0 = "[]" and out = "[ex_gr ''Sobol'']" and s' = ex_after_move
         and ?s0.0 = "ex_strategy ex_two_nodes" and h' = "[[(''m'', [''arm_Sobol''])]]"]
  note u = data_required_propagated_iff_no_runs
      [OF b1 b2 b3 b4, where fuel = 0 and fuel' = 2 and c' = ex_call and po = None
         and ?h0.0 = "[]" and s' = ex_after_move
         and ?s0.0 = ex_after_sobol and h' = "[[]]"]
  from t have swallowed:
    "gen_loop (Suc 0) ?env ex_call 0 [ex_gr ''Sobol''] ex_after_sobol
         [[(''m'', [''arm_Sobol''])]]
       = Some (Inr [ex_gr ''Sobol''], ex_after_move, [[(''m'', [''arm_Sobol''])]])"
    by (simp add: ex_defs)
  from t whole have appended:
    "gs_generator_runs ex_after_move
       = gs_generator_runs (ex_strategy ex_two_nodes) @ [ex_gr ''Sobol'']"
    by blast
  from u have raised:
    "gen_loop (Suc 0) ?env ex_call 0 [] ?bo [[]] = Some (Inl DataRequiredError, ?bo, [[]])"
    by (simp add: ex_defs)
  from u never whole_raised have unchanged:
    "gs_generator_runs ex_after_move = gs_generator_runs ex_after_sobol"
    by blast
  from swallowed raised whole appended whole_raised unchanged show ?thesis by blast
qed

text \<open>
  C2. When the experiment is bound and the multi-node loop of a \<^verbatim>\<open>gen\<close> call
  returns the list \<open>grs\<close>: with more than one generator run in it \<^verbatim>\<open>gen\<close> raises
  \<^verbatim>\<open>UnsupportedError\<close>, with exactly one it returns that run.
\<close>

theorem gen_one_run_or_unsupported:
  assumes "set_experiment experiment s = (Inr (), s1)"
    and "gen_with_multiple_nodes fuel env
           \<lparr>c_experiment = experiment, c_data = data, c_n = Some n,
            c_fixed_features = fixed_features, c_arms_per_node = None,
            c_first_generation_in_multi = True\<rparr> po s1 h = Some (Inr grs, s2, h2)"
  shows "(1 < length grs \<longrightarrow>
            gen fuel env experiment data po n fixed_features s h
              = Some (Inl UnsupportedError, s2, h2))
       \<and> (length grs = 1 \<longrightarrow>
            gen fuel env experiment data po n fixed_features s h
              = Some (Inr (grs ! 0), s2, h2))"
  using assms by (cases grs) (auto simp: gen_def)

text \<open>
  Both nodes generate and the criterion continues the trial: two runs, and \<^verbatim>\<open>gen\<close>
  raises. \<^verbatim>\<open>BO\<close> lacks data: one run, which \<^verbatim>\<open>gen\<close> returns.
\<close>

theorem gen_one_run_or_unsupported_witness:
  "map_option fst
     (gen 2 (ex_env True False (- 1)) (ex_exp ''e'') None None 1 None
        (ex_strategy ex_two_nodes) []) = Some (Inl UnsupportedError)
   \<and> gen 2 (ex_env False False (- 1)) (ex_exp ''e'') None None 1 None
        (ex_strategy ex_two_nodes) []
      = Some (Inr (ex_gr ''Sobol''), ex_after_move, [[(''m'', [''arm_Sobol''])]])"
proof -
  let ?s1 = "(ex_strategy ex_two_nodes)\<lparr>gs_experiment := Some (ex_exp ''e'')\<rparr>"
  have bind: "set_experiment (ex_exp ''e'') (ex_strategy ex_two_nodes) = (Inr (), ?s1)"
    by (simp add: ex_defs model_defs)
  have "\<exists>s2 h2. gen_with_multiple_nodes 2 (ex_env True False (- 1))
           \<lparr>c_experiment = ex_exp ''e'', c_data = None, c_n = Some 1,
            c_fixed_features = None, c_arms_per_node = None,
            c_first_generation_in_multi = True\<rparr> None ?s1 []
          = Some (Inr [ex_gr ''Sobol'', ex_gr ''BO''], s2, h2)"
    by (simp add: ex_defs model_defs numeral_2_eq_2)
  then obtain s2 h2 where two:
    "gen_with_multiple_nodes 2 (ex_env True False (- 1))
           \<lparr>c_experiment = ex_exp ''e'', c_data = None, c_n = Some 1,
            c_fixed_features = None, c_arms_per_node = None,
            c_first_generation_in_multi = True\<rparr> None ?s1 []
          = Some (Inr [ex_gr ''Sobol'', ex_gr ''BO''], s2, h2)"
    by blast
  have one:
    "gen_with_multiple_nodes 2 (ex_env False False (- 1))
           \<lparr>c_experiment = ex_exp ''e'', c_data = None, c_n = Some 1,
            c_fixed_features = None, c_arms_per_node = None,
            c_first_generation_in_multi = True\<rparr> None ?s1 []
          = Some (Inr [ex_gr ''Sobol''], ex_after_move, [[(''m'', [''arm_Sobol''])]])"
    by (simp add: ex_defs model_defs numeral_2_eq_2)
  from gen_one_run_or_unsupported [OF bind two] gen_one_run_or_unsupported [OF bind one]
  show ?thesis by simp
qed

lemma clamp_num_trials_positive: "1 \<le> clamp_num_trials n l"
  by (simp add: clamp_num_trials_def)

lemma multi_loop_first_error:
  assumes "gen_with_multiple_nodes fuel env (c\<lparr>c_first_generation_in_multi := True\<rparr>)
             (Some p) s h = Some (Inl e, s', h')"
    and "1 \<le> k"
  shows "multi_loop (nat k) fuel env c p [] s h = Some (Inl e, s', h')"
proof -
  from assms(2) obtain j where "nat k = Suc j" by (cases "nat k") auto
  with assms(1) show ?thesis by simp
qed

text \<open>
  C3. \<^verbatim>\<open>optimization_complete\<close> is true exactly when every node of the strategy
  reports itself completed. In that state a transition attempt (the current node asks
  to move on) raises \<^verbatim>\<open>GenerationStrategyCompleted\<close> and leaves the strategy as it
  was, and so does an attempt to generate: \<^verbatim>\<open>_gen_with_multiple_nodes\<close>, and through
  it \<^verbatim>\<open>gen\<close> and \<^verbatim>\<open>gen_for_multiple_trials_with_multiple_models\<close> once the
  experiment is bound.
\<close>

theorem optimization_complete_raises:
  "optimization_complete env s = (\<forall>nd\<in>set (gs_nodes s). is_completed env s nd)
   \<and> (optimization_complete env s
        \<and> should_transition_to_next_node env s (curr_node s) r = Inr (True, nn)
      \<longrightarrow> maybe_transition_to_next_node env r s = (Inl GenerationStrategyCompleted, s))
   \<and> (optimization_complete env (s\<lparr>gs_experiment := Some (c_experiment c)\<rparr>)
      \<longrightarrow> gen_with_multiple_nodes fuel env c po s h
            = Some (Inl GenerationStrategyCompleted,
                    s\<lparr>gs_experiment := Some (c_experiment c)\<rparr>, h))
   \<and> (set_experiment experiment s = (Inr (), s1) \<and> optimization_complete env s1
      \<longrightarrow> gen fuel env experiment data po n fixed_features s h
            = Some (Inl GenerationStrategyCompleted, s1, h)
        \<and> (\<exists>h'. gen_for_multiple_trials_with_multiple_models fuel env experiment data po
                   n' fixed_features num_trials arms_per_node s h
                 = Some (Inl GenerationStrategyCompleted, s1, h')))"
proof (intro conjI impI)
  show "optimization_complete env s = (\<forall>nd\<in>set (gs_nodes s). is_completed env s nd)"
    by (simp add: optimization_complete_def list_all_iff)
next
  assume "optimization_complete env s
        \<and> should_transition_to_next_node env s (curr_node s) r = Inr (True, nn)"
  then show "maybe_transition_to_next_node env r s = (Inl GenerationStrategyCompleted, s)"
    by (simp add: maybe_transition_to_next_node_def)
next
  assume "optimization_complete env (s\<lparr>gs_experiment := Some (c_experiment c)\<rparr>)"
  then show "gen_with_multiple_nodes fuel env c po s h
            = Some (Inl GenerationStrategyCompleted,
                    s\<lparr>gs_experiment := Some (c_experiment c)\<rparr>, h)"
    by (simp add: gwmn_unfold)
next
  assume a: "set_experiment experiment s = (Inr (), s1) \<and> optimization_complete env s1"
  then have s1: "s1 = s\<lparr>gs_experiment := Some experiment\<rparr>"
    using set_experiment_ok by blast
  then have s1': "s1\<lparr>gs_experiment := Some experiment\<rparr> = s1" by simp
  from a s1' show "gen fuel env experiment data po n fixed_features s h
            = Some (Inl GenerationStrategyCompleted, s1, h)"
    by (simp add: gen_def gwmn_unfold)
next
  assume a: "set_experiment experiment s = (Inr (), s1) \<and> optimization_complete env s1"
  then have s1: "s1 = s\<lparr>gs_experiment := Some experiment\<rparr>"
    using set_experiment_ok by blast
  then have s1': "s1\<lparr>gs_experiment := Some experiment\<rparr> = s1" by simp
  obtain p h1 where al:
    "alloc h (case po of
                None \<Rightarrow> (case extract_pending_observations env experiment of
                           None \<Rightarrow> [] | Some po \<Rightarrow> po)
              | Some r \<Rightarrow> h ! r) = (p, h1)"
    by (cases "alloc h (case po of
                None \<Rightarrow> (case extract_pending_observations env experiment of
                           None \<Rightarrow> [] | Some po \<Rightarrow> po)
              | Some r \<Rightarrow> h ! r)") auto
  let ?c = "\<lparr>c_experiment = experiment, c_data = data, c_n = n',
             c_fixed_features = fixed_features, c_arms_per_node = arms_per_node,
             c_first_generation_in_multi = True\<rparr>"
  have "gen_with_multiple_nodes fuel env (?c\<lparr>c_first_generation_in_multi := True\<rparr>)
          (Some p) s1 h1 = Some (Inl GenerationStrategyCompleted, s1, h1)"
    using a s1' by (simp add: gwmn_unfold)
  from multi_loop_first_error [OF this clamp_num_trials_positive]
  have "gen_for_multiple_trials_with_multiple_models fuel env experiment data po
                   n' fixed_features num_trials arms_per_node s h
                 = Some (Inl GenerationStrategyCompleted, s1, h1)"
    using a al by (simp add: gen_for_multiple_trials_with_multiple_models_def)
  then show "\<exists>h'. gen_for_multiple_trials_with_multiple_models fuel env experiment data po
                   n' fixed_features num_trials arms_per_node s h
                 = Some (Inl GenerationStrategyCompleted, s1, h')"
    by blast
qed

text \<open>Every node of the two-node strategy answers that it is completed.\<close>

theorem optimization_complete_raises_witness:
  "optimization_complete (ex_env True True (- 1)) (ex_strategy ex_two_nodes)
   \<and> maybe_transition_to_next_node (ex_env True True (- 1)) False (ex_strategy ex_two_nodes)
       = (Inl GenerationStrategyCompleted, ex_strategy ex_two_nodes)
   \<and> gen 2 (ex_env True True (- 1)) (ex_exp ''e'') None None 1 None
        (ex_strategy ex_two_nodes) []
       = Some (Inl GenerationStrategyCompleted,
               (ex_strategy ex_two_nodes)\<lparr>gs_experiment := Some (ex_exp ''e'')\<rparr>, [])"
proof -
  let ?env = "ex_env True True (- 1)"
  let ?s = "ex_strategy ex_two_nodes"
  let ?s1 = "?s\<lparr>gs_experiment := Some (ex_exp ''e'')\<rparr>"
  have all_done: "\<forall>nd\<in>set (gs_nodes ?s). is_completed ?env ?s nd"
    by (simp add: ex_defs)
  have all_done1: "\<forall>nd\<in>set (gs_nodes ?s1). is_completed ?env ?s1 nd"
    by (simp add: ex_defs)
  have move: "should_transition_to_next_node ?env ?s (curr_node ?s) False
                = Inr (True, Some ''BO'')"
    by (simp add: ex_defs model_defs)
  have bind: "set_experiment (ex_exp ''e'') ?s = (Inr (), ?s1)"
    by (simp add: ex_defs model_defs)
  note t = optimization_complete_raises
             [of ?env ?s False "Some ''BO''" ex_call 2 None "[]" "ex_exp ''e''" ?s1
                 None 1 None None 1 None]
  note t1 = optimization_complete_raises [of ?env ?s1]
  from t all_done have c: "optimization_complete ?env ?s" by blast
  from t1 all_done1 have c1: "optimization_complete ?env ?s1" by blast
  from t c move have m: "maybe_transition_to_next_node ?env False ?s
       = (Inl GenerationStrategyCompleted, ?s)" by blast
  from t bind c1 have g: "gen 2 ?env (ex_exp ''e'') None None 1 None ?s []
       = Some (Inl GenerationStrategyCompleted, ?s1, [])" by blast
  from c m g show ?thesis by blast
qed

text \<open>
  C4, as the code has it. A call of \<^verbatim>\<open>gen_for_multiple_trials_with_multiple_models\<close>
  that returns has run the single-trial loop \<open>clamp_num_trials num_trials limit\<close> times,
  \<open>limit\<close> being the current node's \<^verbatim>\<open>new_trial_limit\<close> after the experiment is
  bound: the requested number clamped to a finite limit, and never less than once. It is
  \<open>min num_trials limit\<close> when both are at least 1, it is 1 when the limit is finite and
  either is below 1, and \<open>max num_trials 1\<close> when the limit is \<open>-1\<close>.
\<close>

theorem multi_trials_round_count:
  assumes "set_experiment experiment s = (Inr (), s1)"
    and "gen_for_multiple_trials_with_multiple_models fuel env experiment data po n
           fixed_features num_trials arms_per_node s h = Some (Inr grss, s', h')"
  shows "int (length grss)
           = clamp_num_trials num_trials (new_trial_limit env s1 (curr_node s1) False)
       \<and> (1 \<le> num_trials \<and> 1 \<le> l \<longrightarrow> clamp_num_trials num_trials l = min num_trials l)
       \<and> (l \<noteq> - 1 \<and> (num_trials < 1 \<or> l < 1) \<longrightarrow> clamp_num_trials num_trials l = 1)
       \<and> (l = - 1 \<longrightarrow> clamp_num_trials num_trials l = max num_trials 1)"
proof -
  from assms have
    "length grss = nat (clamp_num_trials num_trials (new_trial_limit env s1 (curr_node s1) False))"
    by (auto simp: gen_for_multiple_trials_with_multiple_models_def alloc_def
          dest!: multi_loop_length)
  moreover have "1 \<le> clamp_num_trials num_trials (new_trial_limit env s1 (curr_node s1) False)"
    by (rule clamp_num_trials_positive)
  ultimately show ?thesis
    by (auto simp: clamp_num_trials_def)
qed

text \<open>A single node with a limit of 2 and 3 trials asked for: two rounds.\<close>

theorem multi_trials_round_count_witness:
  "map_option fst
     (gen_for_multiple_trials_with_multiple_models 1 (ex_env True False 2) (ex_exp ''e'')
        None None None None 3 None (ex_strategy [ex_node ''BO'' []]) [])
     = Some (Inr [[ex_gr ''BO''], [ex_gr ''BO'']])
   \<and> int (length [[ex_gr ''BO''], [ex_gr ''BO'']]) = clamp_num_trials 3 2
   \<and> clamp_num_trials 3 2 = min 3 2"
proof -
  let ?s = "ex_strategy [ex_node ''BO'' []]"
  let ?s1 = "?s\<lparr>gs_experiment := Some (ex_exp ''e'')\<rparr>"
  have bind: "set_experiment (ex_exp ''e'') ?s = (Inr (), ?s1)"
    by (simp add: ex_defs model_defs)
  have "\<exists>s' h'. gen_for_multiple_trials_with_multiple_models 1 (ex_env True False 2)
          (ex_exp ''e'') None None None None 3 None ?s []
          = Some (Inr [[ex_gr ''BO''], [ex_gr ''BO'']], s', h')"
    by (simp add: ex_defs model_defs numeral_2_eq_2)
  then obtain s' h' where run:
    "gen_for_multiple_trials_with_multiple_models 1 (ex_env True False 2)
          (ex_exp ''e'') None None None None 3 None ?s []
          = Some (Inr [[ex_gr ''BO''], [ex_gr ''BO'']], s', h')"
    by blast
  have limit: "new_trial_limit (ex_env True False 2) ?s1 (curr_node ?s1) False = 2"
    by (simp add: ex_defs)
  from multi_trials_round_count [OF bind run, of 2] run limit
  show ?thesis by simp
qed

text \<open>
  The claim as stated fails where the limit is 0: three trials asked for, a budget of no
  further trial, and the loop still runs once.
\<close>

theorem multi_trials_round_count_counterexample:
  "gen_for_multiple_trials_with_multiple_models 2 (ex_env False False 0) (ex_exp ''e'')
     None None None None 3 None (ex_strategy ex_two_nodes) []
     = Some (Inr [[ex_gr ''Sobol'']], ex_after_move, [[(''m'', [''arm_Sobol''])]])
   \<and> new_trial_limit (ex_env False False 0)
       ((ex_strategy ex_two_nodes)\<lparr>gs_experiment := Some (ex_exp ''e'')\<rparr>)
       (curr_node ((ex_strategy ex_two_nodes)\<lparr>gs_experiment := Some (ex_exp ''e'')\<rparr>))
       False = 0
   \<and> int (length [[ex_gr ''Sobol'']]) \<noteq> min 3 0"
  by (simp add: ex_defs model_defs numeral_2_eq_2)

text \<open>
  C7, as the code has it. Binding an experiment succeeds when none is bound yet or the
  bound one has the same name, and binding it again changes nothing; binding an
  experiment of another name fails with \<^verbatim>\<open>ValueError\<close> and leaves the strategy as it
  was.
\<close>

theorem set_experiment_idempotent_or_value_error:
  "(gs_experiment s = None \<or> (\<exists>old. gs_experiment s = Some old \<and> exp_name old = exp_name e)
      \<longrightarrow> set_experiment e s = (Inr (), s\<lparr>gs_experiment := Some e\<rparr>)
          \<and> set_experiment e (s\<lparr>gs_experiment := Some e\<rparr>)
              = (Inr (), s\<lparr>gs_experiment := Some e\<rparr>))
   \<and> (gs_experiment s = Some old \<and> exp_name old \<noteq> exp_name e
      \<longrightarrow> set_experiment e s = (Inl ValueError, s))"
  by (auto simp: set_experiment_def)

theorem set_experiment_idempotent_or_value_error_witness:
  "set_experiment (ex_exp ''e'') (ex_strategy ex_two_nodes)
     = (Inr (), (ex_strategy ex_two_nodes)\<lparr>gs_experiment := Some (ex_exp ''e'')\<rparr>)
   \<and> set_experiment (ex_exp ''e'')
       ((ex_strategy ex_two_nodes)\<lparr>gs_experiment := Some (ex_exp ''e'')\<rparr>)
     = (Inr (), (ex_strategy ex_two_nodes)\<lparr>gs_experiment := Some (ex_exp ''e'')\<rparr>)
   \<and> set_experiment (ex_exp ''other'') ex_after_sobol = (Inl ValueError, ex_after_sobol)"
proof -
  have unbound: "gs_experiment (ex_strategy ex_two_nodes) = None"
    by (simp add: ex_defs)
  have bound: "gs_experiment ex_after_sobol = Some (ex_exp ''e'')
                 \<and> exp_name (ex_exp ''e'') \<noteq> exp_name (ex_exp ''other'')"
    by (simp add: ex_defs)
  from set_experiment_idempotent_or_value_error
         [of "ex_strategy ex_two_nodes" "ex_exp ''e''"] unbound
       set_experiment_idempotent_or_value_error
         [of ex_after_sobol "ex_exp ''other''" "ex_exp ''e''"] bound
  show ?thesis by blast
qed

text \<open>The failure of a re-binding is a \<^verbatim>\<open>ValueError\<close>, not an \<^verbatim>\<open>UnsupportedError\<close>.\<close>

theorem set_experiment_counterexample:
  "fst (set_experiment (ex_exp ''other'') ex_after_sobol) = Inl ValueError
   \<and> fst (set_experiment (ex_exp ''other'') ex_after_sobol) \<noteq> Inl UnsupportedError"
  by (simp add: ex_defs model_defs)

text \<open>
  C8. Constructing a node-based strategy raises
  \<^verbatim>\<open>GenerationStrategyMisconfiguredException\<close> whenever some node has a transition
  criterion whose \<^verbatim>\<open>transition_to\<close> names no node of the strategy, or has two criteria
  to the same target node that differ in \<^verbatim>\<open>continue_trial_generation\<close>, or has a
  criterion without target whose class is not a \<^verbatim>\<open>MaxGenerationParallelism\<close> one.
\<close>

theorem node_graph_misconfigured:
  assumes "nd \<in> set ns" and "tc \<in> set (transition_criteria nd)"
    and "(\<exists>t. transition_to tc = Some t \<and> t \<notin> node_name ` set ns)
       \<or> (\<exists>t. \<exists>tc'\<in>set (transition_criteria nd).
             transition_to tc = Some t \<and> transition_to tc' = Some t
             \<and> continue_trial_generation tc' \<noteq> continue_trial_generation tc)
       \<or> (transition_to tc = None
            \<and> \<not> str_contains ''MaxGenerationParallelism'' (criterion_class tc))"
  shows "init None name (Some ns) = Inl GenerationStrategyMisconfiguredException"
proof (cases "is_node_based ns")
  case False
  then show ?thesis by (simp add: init_def)
next
  case True
  show ?thesis
  proof (cases "unique_node_names ns []")
    case (Inl e)
    with True show ?thesis
      using unique_node_names_result(1) [OF Inl]
      by (simp add: init_def validate_and_set_node_graph_def)
  next
    case (Inr names)
    from unique_node_names_result(2) [OF Inr]
    have eq: "set names = node_name ` set ns" by simp
    have "rejected_criterion names nd tc"
      using assms(3) unfolding rejected_criterion_def eq list_ex_iff
      by (auto split: option.splits)
    from check_node_graph_rejects [OF assms(1,2) this] True Inr
    show ?thesis
      by (simp add: init_def validate_and_set_node_graph_def)
  qed
qed

text \<open>
  One strategy for each of the three cases: the target \<^verbatim>\<open>BO\<close> is missing, two criteria
  to \<^verbatim>\<open>BO\<close> disagree, a \<^verbatim>\<open>MinTrials\<close> criterion has no target.
\<close>

theorem node_graph_misconfigured_witness:
  "init None None (Some [ex_node ''Sobol'' [ex_tc]])
     = Inl GenerationStrategyMisconfiguredException
   \<and> init None None
       (Some [ex_node ''Sobol'' [ex_tc, ex_tc\<lparr>continue_trial_generation := False\<rparr>],
              ex_node ''BO'' []])
     = Inl GenerationStrategyMisconfiguredException
   \<and> init None None
       (Some [ex_node ''Sobol'' [ex_tc\<lparr>transition_to := None\<rparr>], ex_node ''BO'' []])
     = Inl GenerationStrategyMisconfiguredException"
proof -
  let ?a = "ex_node ''Sobol'' [ex_tc]"
  let ?b = "ex_node ''Sobol'' [ex_tc, ex_tc\<lparr>continue_trial_generation := False\<rparr>]"
  let ?c = "ex_node ''Sobol'' [ex_tc\<lparr>transition_to := None\<rparr>]"
  have a1: "?a \<in> set [?a]" by simp
  have a2: "ex_tc \<in> set (transition_criteria ?a)" by (simp add: ex_defs)
  have a3: "(\<exists>t. transition_to ex_tc = Some t \<and> t \<notin> node_name ` set [?a])
       \<or> (\<exists>t. \<exists>tc'\<in>set (transition_criteria ?a).
             transition_to ex_tc = Some t \<and> transition_to tc' = Some t
             \<and> continue_trial_generation tc' \<noteq> continue_trial_generation ex_tc)
       \<or> (transition_to ex_tc = None
            \<and> \<not> str_contains ''MaxGenerationParallelism'' (criterion_class ex_tc))"
    by (simp add: ex_defs)
  have b1: "?b \<in> set [?b, ex_node ''BO'' []]" by simp
  have b2: "ex_tc \<in> set (transition_criteria ?b)" by (simp add: ex_defs)
  have b3: "(\<exists>t. transition_to ex_tc = Some t \<and> t \<notin> node_name ` set [?b, ex_node ''BO'' []])
       \<or> (\<exists>t. \<exists>tc'\<in>set (transition_criteria ?b).
             transition_to ex_tc = Some t \<and> transition_to tc' = Some t
             \<and> continue_trial_generation tc' \<noteq> continue_trial_generation ex_tc)
       \<or> (transition_to ex_tc = None
            \<and> \<not> str_contains ''MaxGenerationParallelism'' (criterion_class ex_tc))"
    by (simp add: ex_defs)
  let ?tc = "ex_tc\<lparr>transition_to := None\<rparr>"
  have c1: "?c \<in> set [?c, ex_node ''BO'' []]" by simp
  have c2: "?tc \<in> set (transition_criteria ?c)" by (simp add: ex_defs)
  have c3: "(\<exists>t. transition_to ?tc = Some t \<and> t \<notin> node_name ` set [?c, ex_node ''BO'' []])
       \<or> (\<exists>t. \<exists>tc'\<in>set (transition_criteria ?c).
             transition_to ?tc = Some t \<and> transition_to tc' = Some t
             \<and> continue_trial_generation tc' \<noteq> continue_trial_generation ?tc)
       \<or> (transition_to ?tc = None
            \<and> \<not> str_contains ''MaxGenerationParallelism'' (criterion_class ?tc))"
    by (simp add: ex_defs)
  from node_graph_misconfigured [OF a1 a2 a3, of None]
       node_graph_misconfigured [OF b1 b2 b3, of None]
       node_graph_misconfigured [OF c1 c2 c3, of None]
  show ?thesis by simp
qed

text \<open>
  C10. Assigning to the \<^verbatim>\<open>name\<close> attribute of a strategy raises
  \<^verbatim>\<open>AttributeError\<close>, whatever the strategy and the value, and leaves the strategy
  unchanged: the last binding of \<^verbatim>\<open>name\<close> in the class body is a property without
  setter. A name given to the constructor is the strategy's name.
\<close>

theorem set_name_raises_attribute_error:
  "set_name v s = (Inl AttributeError, s)
   \<and> (init steps (Some nm) nodes = Inr s' \<and> nm \<noteq> [] \<longrightarrow> gs_name s' = nm)"
  by (auto simp: set_name_def class_namespace_def name_statements_def init_def
        split: if_splits sum.splits option.splits prod.splits)

theorem set_name_raises_attribute_error_witness:
  "set_name ''renamed'' ex_after_sobol = (Inl AttributeError, ex_after_sobol)
   \<and> init None (Some ''gs'') (Some ex_two_nodes) = Inr (ex_strategy ex_two_nodes)
   \<and> gs_name (ex_strategy ex_two_nodes) = ''gs''"
proof -
  have built: "init None (Some ''gs'') (Some ex_two_nodes) = Inr (ex_strategy ex_two_nodes)"
    by (simp add: ex_defs init_def is_node_based_def validate_and_set_node_graph_def
          check_edge_def transition_edges_def)
  from set_name_raises_attribute_error
         [of "''renamed''" ex_after_sobol None "''gs''" "Some ex_two_nodes"
             "ex_strategy ex_two_nodes"] built
  show ?thesis by simp
qed

text \<open>
  C5. The code at the input where the claim fails. The caller's pending-observations map
  holds \<^verbatim>\<open>arm_old\<close> for metric \<^verbatim>\<open>m\<close>. \<^verbatim>\<open>gen\<close> hands that map to the
  multi-node loop, and after the call the caller's map holds the proposed arm
  \<^verbatim>\<open>arm_Sobol\<close> as well: it has been mutated in place. On the same input the
  multi-trial entry point leaves the caller's map (reference 0) as it was and extends its
  own copy (reference 1), as the claim says.
\<close>

theorem gen_extends_caller_pending_observations:
  "gen 2 (ex_env False False (- 1)) (ex_exp ''e'') None (Some 0) 1 None
       (ex_strategy ex_two_nodes) [[(''m'', [''arm_old''])]]
     = Some (Inr (ex_gr ''Sobol''), ex_after_move, [[(''m'', [''arm_old'', ''arm_Sobol''])]])
   \<and> gen_for_multiple_trials_with_multiple_models 2 (ex_env False False (- 1)) (ex_exp ''e'')
       None (Some 0) None None 1 None (ex_strategy ex_two_nodes) [[(''m'', [''arm_old''])]]
     = Some (Inr [[ex_gr ''Sobol'']], ex_after_move,
             [[(''m'', [''arm_old''])], [(''m'', [''arm_old'', ''arm_Sobol''])]])"
  by (simp add: ex_defs model_defs numeral_2_eq_2)




end
